theory Spec2Isabelle
  imports Main "HOL-Library.Word"
begin

unbundle bit_operations_syntax

text \<open>
  A model of the download-and-sync core of the bulk file loader: the event dispatcher
  (package \<open>hooks\<close>), the download orchestrator with its progress tracker (package
  \<open>downloader\<close>) and the sync scheduler (package \<open>scheduler\<close>), over the rows of package
  \<open>database\<close> and the adapter interface of package \<open>sources\<close>.

  Go strings are character lists, \<open>int64\<close> values 64-bit words, byte slices lists of 8-bit
  words, \<open>uint\<close> keys natural numbers. A method becomes a function from the state of its
  receiver to a result and the new state. What a method meets outside the repository (the
  cancellation scope, the file system, the parsers of the libraries) is an argument of its
  model; an \<open>error\<close> that is only reported is its text. Events are kept in the order in
  which they are passed to \<open>hooks.Emit\<close>, and a task started with \<open>go\<close> is recorded,
  not run.
\<close>

section \<open>Event dispatcher (package hooks)\<close>

text \<open>
  Event type names, as the constants of the package declare them.
\<close>

definition EventFileAvailable :: string where
  "EventFileAvailable = ''file.available''"

definition EventDownloadStarted :: string where
  "EventDownloadStarted = ''download.started''"

definition EventDownloadCompleted :: string where
  "EventDownloadCompleted = ''download.completed''"

definition EventDownloadFailed :: string where
  "EventDownloadFailed = ''download.failed''"

definition EventDownloadCancelled :: string where
  "EventDownloadCancelled = ''download.cancelled''"

definition EventChecksumMismatch :: string where
  "EventChecksumMismatch = ''checksum.mismatch''"

definition EventSyncCompleted :: string where
  "EventSyncCompleted = ''sync.completed''"

definition EventSyncFailed :: string where
  "EventSyncFailed = ''sync.failed''"

text \<open>
  The event payload. The timestamp field (wall-clock time of \<open>NewEvent\<close>) is left out:
  no claim reads it. \<open>int64\<close> fields are 64-bit words.
\<close>

record EventProduct =
  EventProduct_ID :: string
  EventProduct_Name :: string

record EventDelivery =
  EventDelivery_ID :: string
  EventDelivery_Name :: string

record EventFile =
  EventFile_ID :: string
  EventFile_Name :: string
  EventFile_Size :: "64 word"
  EventFile_Checksum :: string
  EventFile_Path :: string

record Alert =
  Alert_Type :: string
  Alert_Message :: string
  Alert_Severity :: string

record EventError =
  EventError_Code :: string
  EventError_Message :: string

record Event =
  Event_Type :: string
  Event_Source :: string
  Event_Product :: "EventProduct option"
  Event_Delivery :: "EventDelivery option"
  Event_File :: "EventFile option"
  Event_Alerts :: "Alert list"
  Event_Error :: "EventError option"

definition NewEvent :: "string \<Rightarrow> string \<Rightarrow> Event" where
  "NewEvent eventType source =
     \<lparr>Event_Type = eventType, Event_Source = source, Event_Product = None,
      Event_Delivery = None, Event_File = None, Event_Alerts = [], Event_Error = None\<rparr>"

definition WithProduct :: "string \<Rightarrow> string \<Rightarrow> Event \<Rightarrow> Event" where
  "WithProduct pid name e =
     e\<lparr>Event_Product := Some \<lparr>EventProduct_ID = pid, EventProduct_Name = name\<rparr>\<rparr>"

definition WithDelivery :: "string \<Rightarrow> string \<Rightarrow> Event \<Rightarrow> Event" where
  "WithDelivery did name e =
     e\<lparr>Event_Delivery := Some \<lparr>EventDelivery_ID = did, EventDelivery_Name = name\<rparr>\<rparr>"

definition WithFile :: "string \<Rightarrow> string \<Rightarrow> 64 word \<Rightarrow> string \<Rightarrow> string \<Rightarrow> Event \<Rightarrow> Event" where
  "WithFile fid name sz checksum path e =
     e\<lparr>Event_File := Some \<lparr>EventFile_ID = fid, EventFile_Name = name, EventFile_Size = sz,
                            EventFile_Checksum = checksum, EventFile_Path = path\<rparr>\<rparr>"

definition WithAlert :: "string \<Rightarrow> string \<Rightarrow> string \<Rightarrow> Event \<Rightarrow> Event" where
  "WithAlert alertType message severity e =
     e\<lparr>Event_Alerts := Event_Alerts e @
        [\<lparr>Alert_Type = alertType, Alert_Message = message, Alert_Severity = severity\<rparr>]\<rparr>"

definition WithError :: "string \<Rightarrow> string \<Rightarrow> Event \<Rightarrow> Event" where
  "WithError code message e =
     e\<lparr>Event_Error := Some \<lparr>EventError_Code = code, EventError_Message = message\<rparr>\<rparr>"

text \<open>
  A webhook row. \<open>Events\<close> is the stored JSON text of the subscribed event types;
  \<open>CreatedAt\<close>/\<open>UpdatedAt\<close> are left out.
\<close>

record Webhook =
  Webhook_ID :: nat
  Webhook_Name :: string
  Webhook_URL :: string
  Webhook_Events :: string
  Webhook_Headers :: "8 word list"
  Webhook_Enabled :: bool

text \<open>
  \<open>getWebhooksForEvent\<close>. The store query \<open>Where("enabled = ?", true).Find\<close> either fails
  with an error (\<open>find_err = Some e\<close>) or yields the enabled rows in table order.
  \<open>json.Unmarshal\<close> into a string slice belongs to the standard library; it is the
  parameter \<open>unmarshal\<close>, \<open>None\<close> standing for any decoding error.

  The inner loop over the decoded event names stops at the first name equal to the event type
  or to \<open>"*"\<close>; \<open>events_match\<close> says whether it reaches the \<open>append\<close>.
\<close>

fun events_match :: "string list \<Rightarrow> string \<Rightarrow> bool" where
  "events_match [] eventType = False"
| "events_match (e # es) eventType =
     (if e = eventType \<or> e = ''*'' then True else events_match es eventType)"

fun matching_webhooks ::
  "(string \<Rightarrow> string list option) \<Rightarrow> Webhook list \<Rightarrow> string \<Rightarrow> Webhook list" where
  "matching_webhooks unmarshal [] eventType = []"
| "matching_webhooks unmarshal (wh # whs) eventType =
     (case unmarshal (Webhook_Events wh) of
        None \<Rightarrow> matching_webhooks unmarshal whs eventType
      | Some events \<Rightarrow>
          (if events_match events eventType
           then wh # matching_webhooks unmarshal whs eventType
           else matching_webhooks unmarshal whs eventType))"

definition getWebhooksForEvent ::
  "(string \<Rightarrow> string list option) \<Rightarrow> string option \<Rightarrow> Webhook list \<Rightarrow> string
     \<Rightarrow> string + Webhook list" where
  "getWebhooksForEvent unmarshal find_err webhooks eventType =
     (case find_err of
        Some err \<Rightarrow> Inl err
      | None \<Rightarrow> Inr (matching_webhooks unmarshal (filter Webhook_Enabled webhooks) eventType))"

text \<open>
  \<open>Emit\<close> starts one \<open>deliverWebhook\<close> task per selected webhook and returns; when the
  lookup fails it logs and starts none. The result is the list of started deliveries.
\<close>

definition Emit ::
  "(string \<Rightarrow> string list option) \<Rightarrow> string option \<Rightarrow> Webhook list \<Rightarrow> Event
     \<Rightarrow> (Webhook \<times> Event) list" where
  "Emit unmarshal find_err webhooks event =
     (case getWebhooksForEvent unmarshal find_err webhooks (Event_Type event) of
        Inl err \<Rightarrow> []
      | Inr whs \<Rightarrow> map (\<lambda>wh. (wh, event)) whs)"

section \<open>Standard-library functions the downloader calls\<close>

subsection \<open>\<open>hex.EncodeToString\<close>\<close>

definition hexdigit :: "8 word \<Rightarrow> char" where
  "hexdigit n = ''0123456789abcdef'' ! unat n"

definition hex_EncodeToString :: "8 word list \<Rightarrow> string" where
  "hex_EncodeToString src =
     concat (map (\<lambda>b. [hexdigit (drop_bit 4 b), hexdigit (b AND 0x0f)]) src)"

subsection \<open>\<open>crypto/sha256\<close>, after FIPS 180-4\<close>

text \<open>
  The round constants and the initial hash value of FIPS 180-4, in decimal; \<open>sha256_abc\<close>
  below checks the definitions against the test vector of the standard.
\<close>

definition sha256_K :: "32 word list" where
  "sha256_K =
    [1116352408, 1899447441, 3049323471, 3921009573, 961987163, 1508970993,
     2453635748, 2870763221, 3624381080, 310598401, 607225278, 1426881987,
     1925078388, 2162078206, 2614888103, 3248222580, 3835390401, 4022224774,
     264347078, 604807628, 770255983, 1249150122, 1555081692, 1996064986,
     2554220882, 2821834349, 2952996808, 3210313671, 3336571891, 3584528711,
     113926993, 338241895, 666307205, 773529912, 1294757372, 1396182291,
     1695183700, 1986661051, 2177026350, 2456956037, 2730485921, 2820302411,
     3259730800, 3345764771, 3516065817, 3600352804, 4094571909, 275423344,
     430227734, 506948616, 659060556, 883997877, 958139571, 1322822218,
     1537002063, 1747873779, 1955562222, 2024104815, 2227730452, 2361852424,
     2428436474, 2756734187, 3204031479, 3329325298]"

definition sha256_init :: "32 word list" where
  "sha256_init =
    [1779033703, 3144134277, 1013904242, 2773480762,
     1359893119, 2600822924, 528734635, 1541459225]"

definition Ch :: "32 word \<Rightarrow> 32 word \<Rightarrow> 32 word \<Rightarrow> 32 word" where
  "Ch x y z = (x AND y) XOR (NOT x AND z)"

definition Maj :: "32 word \<Rightarrow> 32 word \<Rightarrow> 32 word \<Rightarrow> 32 word" where
  "Maj x y z = (x AND y) XOR (x AND z) XOR (y AND z)"

definition bsig0 :: "32 word \<Rightarrow> 32 word" where
  "bsig0 x = word_rotr 2 x XOR word_rotr 13 x XOR word_rotr 22 x"

definition bsig1 :: "32 word \<Rightarrow> 32 word" where
  "bsig1 x = word_rotr 6 x XOR word_rotr 11 x XOR word_rotr 25 x"

definition ssig0 :: "32 word \<Rightarrow> 32 word" where
  "ssig0 x = word_rotr 7 x XOR word_rotr 18 x XOR drop_bit 3 x"

definition ssig1 :: "32 word \<Rightarrow> 32 word" where
  "ssig1 x = word_rotr 17 x XOR word_rotr 19 x XOR drop_bit 10 x"

text \<open>Big-endian conversions between bytes and words.\<close>

definition be32 :: "8 word list \<Rightarrow> 32 word" where
  "be32 bs = foldl (\<lambda>acc b. push_bit 8 acc OR ucast b) 0 bs"

text \<open>
  Padding: the byte \<open>0x80\<close>, zero bytes up to 56 modulo 64, and the message length in bits
  as a 64-bit big-endian integer.
\<close>

definition sha256_length_bytes :: "nat \<Rightarrow> 8 word list" where
  "sha256_length_bytes n =
     (let bits = (of_nat (8 * n) :: 64 word)
      in map (\<lambda>i. ucast (drop_bit (56 - 8 * i) bits)) [0..<8])"

definition sha256_pad :: "8 word list \<Rightarrow> 8 word list" where
  "sha256_pad msg =
     msg @ [0x80] @ replicate ((119 - length msg mod 64) mod 64) 0
         @ sha256_length_bytes (length msg)"

fun chunks :: "nat \<Rightarrow> nat \<Rightarrow> 'a list \<Rightarrow> 'a list list" where
  "chunks n 0 xs = []"
| "chunks n (Suc k) xs = take n xs # chunks n k (drop n xs)"

text \<open>The message schedule: sixteen words of the block, extended to sixty-four.\<close>

fun sha256_extend :: "nat \<Rightarrow> 32 word list \<Rightarrow> 32 word list" where
  "sha256_extend 0 w = w"
| "sha256_extend (Suc k) w =
     (let t = length w in
      sha256_extend k
        (w @ [ssig1 (w ! (t - 2)) + w ! (t - 7) + ssig0 (w ! (t - 15)) + w ! (t - 16)]))"

definition sha256_schedule :: "8 word list \<Rightarrow> 32 word list" where
  "sha256_schedule block = sha256_extend 48 (map be32 (chunks 4 16 block))"

fun sha256_round :: "32 word list \<Rightarrow> 32 word \<times> 32 word \<Rightarrow> 32 word list" where
  "sha256_round [a, b, c, d, e, f, g, h] (k, w) =
     (let t1 = h + bsig1 e + Ch e f g + k + w;
          t2 = bsig0 a + Maj a b c
      in [t1 + t2, a, b, c, d + t1, e, f, g])"
| "sha256_round s (k, w) = s"

definition sha256_block :: "32 word list \<Rightarrow> 8 word list \<Rightarrow> 32 word list" where
  "sha256_block hs block =
     map2 (+) hs (foldl sha256_round hs (zip sha256_K (sha256_schedule block)))"

definition sha256 :: "8 word list \<Rightarrow> 8 word list" where
  "sha256 msg =
     (let padded = sha256_pad msg;
          hs = foldl sha256_block sha256_init (chunks 64 (length padded div 64) padded)
      in concat (map (\<lambda>w. map (\<lambda>i. ucast (drop_bit (24 - 8 * i) w)) [0..<4]) hs))"

subsection \<open>\<open>path/filepath\<close> (Unix separators)\<close>

text \<open>
  \<open>filepath.Clean\<close> works on the elements between separators: empty elements and \<open>.\<close>
  disappear, \<open>..\<close> removes the element before it, is dropped at the root and is kept in
  front of a relative path. \<open>out\<close> holds the elements kept so far, the last one first.
\<close>

fun split_sep :: "string \<Rightarrow> string list" where
  "split_sep [] = [[]]"
| "split_sep (c # cs) =
     (if c = CHR ''/'' then [] # split_sep cs
      else (case split_sep cs of
              [] \<Rightarrow> [[c]]
            | x # xs \<Rightarrow> (c # x) # xs))"

fun join_sep :: "string list \<Rightarrow> string" where
  "join_sep [] = []"
| "join_sep [x] = x"
| "join_sep (x # y # ys) = x @ ''/'' @ join_sep (y # ys)"

fun clean_elems :: "bool \<Rightarrow> string list \<Rightarrow> string list \<Rightarrow> string list" where
  "clean_elems rooted out [] = rev out"
| "clean_elems rooted out (e # es) =
     (if e = [] \<or> e = ''.'' then clean_elems rooted out es
      else if e = ''..'' then
        (case out of
           [] \<Rightarrow> if rooted then clean_elems rooted out es else clean_elems rooted (e # out) es
         | last_kept # below \<Rightarrow>
             if last_kept = ''..'' then clean_elems rooted (e # out) es
             else clean_elems rooted below es)
      else clean_elems rooted (e # out) es)"

definition filepath_Clean :: "string \<Rightarrow> string" where
  "filepath_Clean path =
     (if path = [] then ''.''
      else
        (let rooted = (hd path = CHR ''/'');
             cleaned = (if rooted then ''/'' else []) @ join_sep (clean_elems rooted [] (split_sep path))
         in if cleaned = [] then ''.'' else cleaned))"

definition filepath_Join :: "string list \<Rightarrow> string" where
  "filepath_Join elem =
     (case dropWhile (\<lambda>e. e = []) elem of
        [] \<Rightarrow> []
      | e # es \<Rightarrow> filepath_Clean (join_sep (e # es)))"

section \<open>Persistent rows (package database) and adapter data (package sources)\<close>

text \<open>
  Tables are lists of rows in insertion order. Timestamps (\<open>CreatedAt\<close>, \<open>StartedAt\<close>,
  \<open>ReleasedAt\<close>, ...) are left out of the rows, except \<open>LastCheckedAt\<close> of a product,
  which the scheduler writes.
\<close>

record Product =
  Product_ID :: string
  Product_SourceID :: string
  Product_ExternalID :: string
  Product_Name :: string
  Product_AutoDownload :: bool
  Product_CheckWindowStart :: string
  Product_LastCheckedAt :: "nat option"

record Delivery =
  Delivery_ID :: string
  Delivery_ProductID :: string
  Delivery_ExternalID :: string
  Delivery_Name :: string

record File =
  File_ID :: string
  File_DeliveryID :: string
  File_ProductID :: string
  File_SourceID :: string
  File_ExternalID :: string
  File_FileName :: string
  File_FileSize :: "64 word"
  File_ExpectedChecksum :: string
  File_ChecksumAlgorithm :: string
  File_DownloadURI :: string
  File_Skipped :: bool

record DownloadEntry =
  DownloadEntry_ID :: nat
  DownloadEntry_FileID :: string
  DownloadEntry_Status :: string
  DownloadEntry_Progress :: "64 word"
  DownloadEntry_TotalBytes :: "64 word"
  DownloadEntry_LocalPath :: string
  DownloadEntry_LocalChecksum :: string
  DownloadEntry_ErrorMessage :: string

definition DownloadStatusPending :: string where
  "DownloadStatusPending = ''pending''"

definition DownloadStatusDownloading :: string where
  "DownloadStatusDownloading = ''downloading''"

definition DownloadStatusCompleted :: string where
  "DownloadStatusCompleted = ''completed''"

definition DownloadStatusFailed :: string where
  "DownloadStatusFailed = ''failed''"

definition DownloadStatusCancelled :: string where
  "DownloadStatusCancelled = ''cancelled''"

record DB =
  products :: "Product list"
  deliveries :: "Delivery list"
  files :: "File list"
  download_entries :: "DownloadEntry list"

record DeliveryInfo =
  DeliveryInfo_ExternalID :: string
  DeliveryInfo_Name :: string

record FileInfo =
  FileInfo_ExternalID :: string
  FileInfo_FileName :: string
  FileInfo_FileSize :: "64 word"
  FileInfo_Checksum :: string
  FileInfo_ChecksumAlgorithm :: string
  FileInfo_DownloadURI :: string

text \<open>
  A source adapter, as the orchestration code observes it. The fetch operations return an
  error text or a list. \<open>DownloadFile\<close> is given by what it does with its sink and its
  progress callback, in order, and by the error it returns (\<open>None\<close> for \<open>nil\<close>).
\<close>

datatype adapter_action =
  Write "8 word list"
| Progress "64 word" "64 word"

record Adapter =
  FetchDeliveries :: "string \<Rightarrow> string + DeliveryInfo list"
  FetchFiles :: "string \<Rightarrow> string \<Rightarrow> string + FileInfo list"
  DownloadFile :: "FileInfo \<Rightarrow> adapter_action list \<times> string option"

subsection \<open>Store operations\<close>

definition db_first_file :: "string \<Rightarrow> DB \<Rightarrow> File option" where
  "db_first_file fileID db = find (\<lambda>f. File_ID f = fileID) (files db)"

definition db_first_product :: "string \<Rightarrow> DB \<Rightarrow> Product option" where
  "db_first_product productID db = find (\<lambda>p. Product_ID p = productID) (products db)"

definition db_count_files :: "string \<Rightarrow> DB \<Rightarrow> nat" where
  "db_count_files fileID db = length (filter (\<lambda>f. File_ID f = fileID) (files db))"

definition db_count_deliveries :: "string \<Rightarrow> DB \<Rightarrow> nat" where
  "db_count_deliveries deliveryID db =
     length (filter (\<lambda>d. Delivery_ID d = deliveryID) (deliveries db))"

text \<open>
  \<open>Create\<close> of a row with a string primary key fails when the key is taken.
\<close>

definition db_create_file :: "File \<Rightarrow> DB \<Rightarrow> string + DB" where
  "db_create_file file db =
     (if File_ID file \<in> set (map File_ID (files db))
      then Inl ''UNIQUE constraint failed: files.id''
      else Inr (db\<lparr>files := files db @ [file]\<rparr>))"

definition db_create_delivery :: "Delivery \<Rightarrow> DB \<Rightarrow> DB" where
  "db_create_delivery delivery db =
     (if Delivery_ID delivery \<in> set (map Delivery_ID (deliveries db)) then db
      else db\<lparr>deliveries := deliveries db @ [delivery]\<rparr>)"

text \<open>
  \<open>Create\<close> of a download entry assigns the next numeric key; \<open>Save\<close> writes the row
  with the entry's key, inserting it when the table has none.
\<close>

definition next_entry_id :: "DownloadEntry list \<Rightarrow> nat" where
  "next_entry_id rows = Suc (foldr max (map DownloadEntry_ID rows) 0)"

definition db_create_entry :: "DownloadEntry \<Rightarrow> DB \<Rightarrow> DownloadEntry \<times> DB" where
  "db_create_entry entry db =
     (let created = entry\<lparr>DownloadEntry_ID := next_entry_id (download_entries db)\<rparr>
      in (created, db\<lparr>download_entries := download_entries db @ [created]\<rparr>))"

definition db_save_entry :: "DownloadEntry \<Rightarrow> DB \<Rightarrow> DB" where
  "db_save_entry entry db =
     (if DownloadEntry_ID entry \<in> set (map DownloadEntry_ID (download_entries db))
      then db\<lparr>download_entries :=
               map (\<lambda>row. if DownloadEntry_ID row = DownloadEntry_ID entry then entry else row)
                   (download_entries db)\<rparr>
      else db\<lparr>download_entries := download_entries db @ [entry]\<rparr>)"

definition db_find_entry :: "nat \<Rightarrow> DB \<Rightarrow> DownloadEntry option" where
  "db_find_entry entryID db = find (\<lambda>row. DownloadEntry_ID row = entryID) (download_entries db)"

definition db_save_product :: "Product \<Rightarrow> DB \<Rightarrow> DB" where
  "db_save_product product db =
     (if Product_ID product \<in> set (map Product_ID (products db))
      then db\<lparr>products :=
               map (\<lambda>row. if Product_ID row = Product_ID product then product else row)
                   (products db)\<rparr>
      else db\<lparr>products := products db @ [product]\<rparr>)"

section \<open>Progress tracker\<close>

text \<open>
  The start time and the speed (a floating-point rate over wall-clock time) are left out of
  the progress record.
\<close>

record DownloadProgress =
  DownloadProgress_FileID :: string
  DownloadProgress_FileName :: string
  DownloadProgress_BytesWritten :: "64 word"
  DownloadProgress_TotalBytes :: "64 word"

type_synonym ProgressTracker = "string \<rightharpoonup> DownloadProgress"

definition progress_Start ::
  "string \<Rightarrow> string \<Rightarrow> 64 word \<Rightarrow> ProgressTracker \<Rightarrow> ProgressTracker" where
  "progress_Start fileID fileName totalBytes pt =
     pt(fileID \<mapsto> \<lparr>DownloadProgress_FileID = fileID, DownloadProgress_FileName = fileName,
                    DownloadProgress_BytesWritten = 0, DownloadProgress_TotalBytes = totalBytes\<rparr>)"

definition progress_Update ::
  "string \<Rightarrow> 64 word \<Rightarrow> 64 word \<Rightarrow> ProgressTracker \<Rightarrow> ProgressTracker" where
  "progress_Update fileID bytesWritten totalBytes pt =
     (case pt fileID of
        None \<Rightarrow> pt
      | Some p \<Rightarrow>
          pt(fileID \<mapsto>
               p\<lparr>DownloadProgress_BytesWritten := bytesWritten,
                 DownloadProgress_TotalBytes :=
                   (if 0 <s totalBytes then totalBytes else DownloadProgress_TotalBytes p)\<rparr>))"

definition progress_Complete :: "string \<Rightarrow> ProgressTracker \<Rightarrow> ProgressTracker" where
  "progress_Complete fileID pt = pt(fileID := None)"

section \<open>Download orchestrator (package downloader)\<close>

datatype ctx_error = Canceled | DeadlineExceeded

text \<open>
  The errors \<open>Download\<close> returns: the three sentinels, the error of the cancellation scope,
  and \<open>fmt.Errorf("%s: %w", message, err)\<close> as the message with the text of the wrapped error.
\<close>

datatype download_error =
  ErrDownloadInProgress
| ErrFileNotFound
| ErrSourceNotFound
| ContextError ctx_error
| WrappedError string string

text \<open>
  The downloader with what it shares: the store, the adapter registry, the events passed to
  \<open>hooks.Emit\<close> (oldest first), the data directory of the configuration, the in-flight
  registry (its keys), the progress tracker and the files of the file system.
\<close>

record Downloader =
  d_db :: DB
  d_registry :: "string \<rightharpoonup> Adapter"
  d_hooks :: "Event list"
  d_DataDir :: string
  d_active :: "string set"
  d_progress :: ProgressTracker
  d_fs :: "string \<rightharpoonup> 8 word list"

text \<open>
  What one call of \<open>Download\<close> meets outside the downloader:
  \<^item> \<open>slot_wait\<close>: the \<open>select\<close> on the semaphore; \<open>None\<close> when the slot was acquired,
    \<open>Some e\<close> when the scope was done first, with \<open>ctx.Err() = e\<close>;
  \<^item> the errors of \<open>db.Create(entry)\<close>, \<open>os.MkdirAll\<close>, \<open>os.Create\<close> and \<open>os.Rename\<close>
    (\<open>None\<close> for \<open>nil\<close>);
  \<^item> \<open>ctx_after\<close>: \<open>ctx.Err()\<close> when the adapter has returned.
  Writes to the open temporary file and \<open>Save\<close> of the entry are taken to succeed; the code
  ignores their errors or only logs them.
\<close>

record download_env =
  slot_wait :: "ctx_error option"
  create_entry_err :: "string option"
  mkdir_err :: "string option"
  create_temp_err :: "string option"
  ctx_after :: "ctx_error option"
  rename_err :: "string option"

definition DownloadsPath :: "string \<Rightarrow> string" where
  "DownloadsPath dataDir = filepath_Join [dataDir, ''downloads'']"

definition getDownloadPath :: "Downloader \<Rightarrow> File \<Rightarrow> string" where
  "getDownloadPath d file =
     filepath_Join [DownloadsPath (d_DataDir d), File_SourceID file, File_ProductID file,
                    File_FileName file]"

definition hooks_Emit :: "Event \<Rightarrow> Downloader \<Rightarrow> Downloader" where
  "hooks_Emit event d = d\<lparr>d_hooks := d_hooks d @ [event]\<rparr>"

definition handleError ::
  "DownloadEntry \<Rightarrow> File \<Rightarrow> string \<Rightarrow> string \<Rightarrow> string \<Rightarrow> Downloader
     \<Rightarrow> download_error option \<times> Downloader" where
  "handleError entry file code message err d =
     (let entry1 = entry\<lparr>DownloadEntry_Status := DownloadStatusFailed,
                          DownloadEntry_ErrorMessage := message @ '': '' @ err\<rparr>;
          d1 = d\<lparr>d_db := db_save_entry entry1 (d_db d)\<rparr>;
          event = WithError code (DownloadEntry_ErrorMessage entry1)
                    (WithFile (File_ID file) (File_FileName file) (File_FileSize file) [] []
                       (NewEvent EventDownloadFailed (File_SourceID file)))
      in (Some (WrappedError message err), hooks_Emit event d1))"

definition handleCancelled ::
  "DownloadEntry \<Rightarrow> File \<Rightarrow> Downloader \<Rightarrow> download_error option \<times> Downloader" where
  "handleCancelled entry file d =
     (let entry1 = entry\<lparr>DownloadEntry_Status := DownloadStatusCancelled\<rparr>;
          d1 = d\<lparr>d_db := db_save_entry entry1 (d_db d)\<rparr>;
          event = WithFile (File_ID file) (File_FileName file) (File_FileSize file) [] []
                    (NewEvent EventDownloadCancelled (File_SourceID file))
      in (Some (ContextError Canceled), hooks_Emit event d1))"

definition emitEvent :: "string \<Rightarrow> File \<Rightarrow> Downloader \<Rightarrow> Downloader" where
  "emitEvent eventType file d =
     hooks_Emit (WithFile (File_ID file) (File_FileName file) (File_FileSize file) [] []
                   (NewEvent eventType (File_SourceID file))) d"

definition emitCompletedEvent :: "File \<Rightarrow> string \<Rightarrow> string \<Rightarrow> Downloader \<Rightarrow> Downloader" where
  "emitCompletedEvent file path checksum d =
     hooks_Emit (WithFile (File_ID file) (File_FileName file) (File_FileSize file) checksum path
                   (NewEvent EventDownloadCompleted (File_SourceID file))) d"

text \<open>
  The adapter at work. A write goes through \<open>io.MultiWriter\<close> to the temporary file and to
  the hasher; \<open>hashed\<close> is what the hasher has been fed. A progress report updates the
  tracker, the entry in memory and the stored row.
\<close>

fun run_adapter ::
  "adapter_action list \<Rightarrow> string \<Rightarrow> string \<Rightarrow> DownloadEntry \<times> 8 word list \<times> Downloader
     \<Rightarrow> DownloadEntry \<times> 8 word list \<times> Downloader" where
  "run_adapter [] fileID tempPath (entry, hashed, d) = (entry, hashed, d)"
| "run_adapter (Write p # acts) fileID tempPath (entry, hashed, d) =
     run_adapter acts fileID tempPath
       (entry, hashed @ p,
        (case d_fs d tempPath of
           None \<Rightarrow> d
         | Some written \<Rightarrow> d\<lparr>d_fs := (d_fs d)(tempPath \<mapsto> written @ p)\<rparr>))"
| "run_adapter (Progress bytesWritten totalBytes # acts) fileID tempPath (entry, hashed, d) =
     (let entry1 = entry\<lparr>DownloadEntry_Progress := bytesWritten,
                          DownloadEntry_TotalBytes := totalBytes\<rparr>
      in run_adapter acts fileID tempPath
           (entry1, hashed,
            d\<lparr>d_progress := progress_Update fileID bytesWritten totalBytes (d_progress d),
              d_db := db_save_entry entry1 (d_db d)\<rparr>))"

text \<open>The \<open>fileInfo\<close> that \<open>Download\<close> hands to the adapter.\<close>

definition fileInfo_of :: "File \<Rightarrow> FileInfo" where
  "fileInfo_of file =
     \<lparr>FileInfo_ExternalID = File_ExternalID file,
      FileInfo_FileName = File_FileName file,
      FileInfo_FileSize = File_FileSize file,
      FileInfo_Checksum = File_ExpectedChecksum file,
      FileInfo_ChecksumAlgorithm = File_ChecksumAlgorithm file,
      FileInfo_DownloadURI = File_DownloadURI file\<rparr>"

text \<open>
  The transfer itself, from the creation of the temporary file on; the deferred
  \<open>progress.Complete\<close> runs on every way out.
\<close>

definition transfer ::
  "download_env \<Rightarrow> Adapter \<Rightarrow> File \<Rightarrow> DownloadEntry \<Rightarrow> string \<Rightarrow> Downloader
     \<Rightarrow> download_error option \<times> Downloader" where
  "transfer env adapter file entry downloadPath d =
     (let fileID = File_ID file;
          tempPath = downloadPath @ ''.tmp'';
          d1 = d\<lparr>d_fs := (d_fs d)(tempPath \<mapsto> [])\<rparr>;
          d2 = d1\<lparr>d_progress :=
                    progress_Start fileID (File_FileName file) (File_FileSize file) (d_progress d1)\<rparr>;
          (acts, err) = DownloadFile adapter (fileInfo_of file);
          (entry1, hashed, d3) = run_adapter acts fileID tempPath (entry, [], d2);
          (res, d4) =
            (case err of
               Some e \<Rightarrow>
                 (let d_removed = d3\<lparr>d_fs := (d_fs d3)(tempPath := None)\<rparr>
                  in if ctx_after env = Some Canceled
                     then handleCancelled entry1 file d_removed
                     else handleError entry1 file ''DOWNLOAD_ERROR'' ''Download failed'' e d_removed)
             | None \<Rightarrow>
                 (case rename_err env of
                    Some e \<Rightarrow>
                      handleError entry1 file ''FILESYSTEM_ERROR'' ''Failed to move file'' e
                        (d3\<lparr>d_fs := (d_fs d3)(tempPath := None)\<rparr>)
                  | None \<Rightarrow>
                      (let d_moved = d3\<lparr>d_fs := (d_fs d3)(downloadPath := d_fs d3 tempPath,
                                                             tempPath := None)\<rparr>;
                           localChecksum = ''sha256:'' @ hex_EncodeToString (sha256 hashed);
                           entry2 = entry1\<lparr>DownloadEntry_Status := DownloadStatusCompleted,
                                            DownloadEntry_LocalPath := downloadPath,
                                            DownloadEntry_LocalChecksum := localChecksum\<rparr>;
                           d_saved = d_moved\<lparr>d_db := db_save_entry entry2 (d_db d_moved)\<rparr>
                       in (None, emitCompletedEvent file downloadPath localChecksum d_saved))))
      in (res, d4\<lparr>d_progress := progress_Complete fileID (d_progress d4)\<rparr>))"

text \<open>The entry \<open>Download\<close> creates: the file id and the status, every other field zero.\<close>

definition new_download_entry :: "string \<Rightarrow> DownloadEntry" where
  "new_download_entry fileID =
     \<lparr>DownloadEntry_ID = 0, DownloadEntry_FileID = fileID,
      DownloadEntry_Status = DownloadStatusDownloading,
      DownloadEntry_Progress = 0, DownloadEntry_TotalBytes = 0,
      DownloadEntry_LocalPath = [], DownloadEntry_LocalChecksum = [],
      DownloadEntry_ErrorMessage = []\<rparr>"

text \<open>
  The part of \<open>Download\<close> that runs with the file id in the in-flight registry: the wait
  for a slot, the new entry, the started event, the directory and the temporary file.
\<close>

definition download_registered ::
  "download_env \<Rightarrow> Adapter \<Rightarrow> File \<Rightarrow> Downloader \<Rightarrow> download_error option \<times> Downloader" where
  "download_registered env adapter file d =
     (case slot_wait env of
        Some e \<Rightarrow> (Some (ContextError e), d)
      | None \<Rightarrow>
          (case create_entry_err env of
             Some e \<Rightarrow> (Some (WrappedError ''failed to create download entry'' e), d)
           | None \<Rightarrow>
               (let (entry, db1) =
                      db_create_entry (new_download_entry (File_ID file)) (d_db d);
                    d1 = emitEvent EventDownloadStarted file (d\<lparr>d_db := db1\<rparr>);
                    downloadPath = getDownloadPath d1 file
                in case mkdir_err env of
                     Some e \<Rightarrow>
                       handleError entry file ''FILESYSTEM_ERROR'' ''Failed to create directory'' e d1
                   | None \<Rightarrow>
                       (case create_temp_err env of
                          Some e \<Rightarrow>
                            handleError entry file ''FILESYSTEM_ERROR''
                              ''Failed to create temp file'' e d1
                        | None \<Rightarrow> transfer env adapter file entry downloadPath d1))))"

definition Download ::
  "download_env \<Rightarrow> string \<Rightarrow> Downloader \<Rightarrow> download_error option \<times> Downloader" where
  "Download env fileID d =
     (if fileID \<in> d_active d then (Some ErrDownloadInProgress, d)
      else
        (case db_first_file fileID (d_db d) of
           None \<Rightarrow> (Some ErrFileNotFound, d)
         | Some file \<Rightarrow>
             (case d_registry d (File_SourceID file) of
                None \<Rightarrow> (Some ErrSourceNotFound, d)
              | Some adapter \<Rightarrow>
                  (let (res, d1) =
                         download_registered env adapter file (d\<lparr>d_active := insert fileID (d_active d)\<rparr>)
                   in (res, d1\<lparr>d_active := d_active d1 - {fileID}\<rparr>)))))"

definition Cancel :: "string \<Rightarrow> Downloader \<Rightarrow> download_error option" where
  "Cancel fileID d = (if fileID \<in> d_active d then None else Some ErrFileNotFound)"

text \<open>The bytes an adapter run writes to its sink, in order.\<close>

fun adapter_written :: "adapter_action list \<Rightarrow> 8 word list" where
  "adapter_written [] = []"
| "adapter_written (Write p # acts) = p @ adapter_written acts"
| "adapter_written (Progress bytesWritten totalBytes # acts) = adapter_written acts"

subsection \<open>Sample data for the downloader\<close>

text \<open>
  The file and the adapters of the package's tests: a file of source \<open>mock\<close> (declaring an
  MD5 checksum, as the EPO adapter does for its files), an adapter that writes
  \<open>test content\<close> and reports progress once, one that returns the error of its
  context without writing, and one that fails after writing two bytes.
\<close>

definition test_content :: "8 word list" where
  "test_content = [0x74, 0x65, 0x73, 0x74, 0x20, 0x63, 0x6f, 0x6e, 0x74, 0x65, 0x6e, 0x74]"

definition test_file :: File where
  "test_file =
     \<lparr>File_ID = ''file-1'', File_DeliveryID = ''del'', File_ProductID = ''prod'',
      File_SourceID = ''mock'', File_ExternalID = ''1'', File_FileName = ''test.txt'',
      File_FileSize = 100, File_ExpectedChecksum = [], File_ChecksumAlgorithm = ''md5'',
      File_DownloadURI = ''1/2/3'', File_Skipped = False\<rparr>"

definition writing_adapter :: Adapter where
  "writing_adapter =
     \<lparr>FetchDeliveries = (\<lambda>productID. Inr []),
      FetchFiles = (\<lambda>productID deliveryID. Inr []),
      DownloadFile = (\<lambda>file. ([Write test_content, Progress 12 12], None))\<rparr>"

definition blocked_adapter :: "string \<Rightarrow> Adapter" where
  "blocked_adapter ctx_err_text =
     \<lparr>FetchDeliveries = (\<lambda>productID. Inr []),
      FetchFiles = (\<lambda>productID deliveryID. Inr []),
      DownloadFile = (\<lambda>file. ([], Some ctx_err_text))\<rparr>"

definition partial_adapter :: Adapter where
  "partial_adapter =
     \<lparr>FetchDeliveries = (\<lambda>productID. Inr []),
      FetchFiles = (\<lambda>productID deliveryID. Inr []),
      DownloadFile = (\<lambda>file. ([Write [0x74, 0x65], Progress 2 100],
                                Some ''connection reset by peer''))\<rparr>"

definition test_downloader :: "Adapter \<Rightarrow> Downloader" where
  "test_downloader adapter =
     \<lparr>d_db = \<lparr>products = [], deliveries = [], files = [test_file], download_entries = []\<rparr>,
      d_registry = [''mock'' \<mapsto> adapter],
      d_hooks = [],
      d_DataDir = ''/data'',
      d_active = {},
      d_progress = Map.empty,
      d_fs = Map.empty\<rparr>"

text \<open>A downloader whose final path for the sample file holds an earlier download.\<close>

definition earlier_download :: "Downloader \<Rightarrow> Downloader" where
  "earlier_download d = d\<lparr>d_fs := (d_fs d)(''/data/downloads/mock/prod/test.txt'' \<mapsto> test_content)\<rparr>"

definition env_ok :: download_env where
  "env_ok =
     \<lparr>slot_wait = None, create_entry_err = None, mkdir_err = None, create_temp_err = None,
      ctx_after = None, rename_err = None\<rparr>"

subsection \<open>Sample data for the dispatcher\<close>

text \<open>
  The webhooks of the package's tests, with the JSON texts \<open>CreateWebhook\<close> stores for their
  subscriptions, and the value of \<open>json.Unmarshal\<close> on these two texts (no other text is
  decoded by the samples).
\<close>

definition sample_unmarshal :: "string \<Rightarrow> string list option" where
  \<open>sample_unmarshal text =
     (if text = ''["*"]'' then Some [''*'']
      else if text = ''["download.completed"]'' then Some [''download.completed'']
      else None)\<close>

definition webhook_all :: Webhook where
  \<open>webhook_all =
     \<lparr>Webhook_ID = 1, Webhook_Name = ''All Events'', Webhook_URL = ''http://127.0.0.1:1/all'',
      Webhook_Events = ''["*"]'', Webhook_Headers = [], Webhook_Enabled = True\<rparr>\<close>

definition webhook_completed :: Webhook where
  \<open>webhook_completed =
     \<lparr>Webhook_ID = 2, Webhook_Name = ''Completed Only'', Webhook_URL = ''http://127.0.0.1:2/done'',
      Webhook_Events = ''["download.completed"]'', Webhook_Headers = [], Webhook_Enabled = True\<rparr>\<close>

definition webhook_disabled :: Webhook where
  \<open>webhook_disabled =
     \<lparr>Webhook_ID = 3, Webhook_Name = ''Disabled'', Webhook_URL = ''http://127.0.0.1:3/off'',
      Webhook_Events = ''["*"]'', Webhook_Headers = [], Webhook_Enabled = False\<rparr>\<close>

section \<open>Sync scheduler (package scheduler)\<close>

subsection \<open>The cron registry\<close>

text \<open>
  The scheduler uses the cron library through \<open>AddFunc\<close> and \<open>Remove\<close>. An entry is
  kept with its id, its schedule expression and the product its job syncs. \<open>AddFunc\<close> parses
  the expression first; the parser belongs to the library and is the parameter \<open>parse\<close>,
  which gives the error text for an expression it rejects. A new entry gets the next id.
\<close>

record cron_entry =
  entry_ID :: nat
  entry_spec :: string
  entry_product :: string

record Cron =
  cron_entries :: "cron_entry list"
  cron_nextID :: nat

definition cron_New :: Cron where
  "cron_New = \<lparr>cron_entries = [], cron_nextID = 0\<rparr>"

definition cron_AddFunc ::
  "(string \<Rightarrow> string option) \<Rightarrow> string \<Rightarrow> string \<Rightarrow> Cron \<Rightarrow> string + (nat \<times> Cron)" where
  "cron_AddFunc parse spec productID c =
     (case parse spec of
        Some err \<Rightarrow> Inl err
      | None \<Rightarrow>
          (let entryID = Suc (cron_nextID c)
           in Inr (entryID,
                   c\<lparr>cron_entries := cron_entries c @
                        [\<lparr>entry_ID = entryID, entry_spec = spec, entry_product = productID\<rparr>],
                     cron_nextID := entryID\<rparr>)))"

definition cron_Remove :: "nat \<Rightarrow> Cron \<Rightarrow> Cron" where
  "cron_Remove entryID c =
     c\<lparr>cron_entries := filter (\<lambda>e. entry_ID e \<noteq> entryID) (cron_entries c)\<rparr>"

subsection \<open>The scheduler\<close>

text \<open>
  A task started with \<open>go\<close>: a sync of a product or a download of a file. The scheduler
  does not wait for it and does not see its result.
\<close>

datatype task = SyncTask string | DownloadTask string

record Scheduler =
  s_db :: DB
  s_registry :: "string \<rightharpoonup> Adapter"
  s_hooks :: "Event list"
  s_cron :: Cron
  s_entryIDs :: "string \<rightharpoonup> nat"
  s_started :: "task list"

definition ScheduleProduct ::
  "(string \<Rightarrow> string option) \<Rightarrow> Product \<Rightarrow> Scheduler \<Rightarrow> string option \<times> Scheduler" where
  "ScheduleProduct parse product s =
     (let s1 = (case s_entryIDs s (Product_ID product) of
                  Some entryID \<Rightarrow>
                    s\<lparr>s_cron := cron_Remove entryID (s_cron s),
                      s_entryIDs := (s_entryIDs s)(Product_ID product := None)\<rparr>
                | None \<Rightarrow> s)
      in if Product_CheckWindowStart product = [] then (None, s1)
         else
           (case cron_AddFunc parse (Product_CheckWindowStart product) (Product_ID product)
                   (s_cron s1) of
              Inl err \<Rightarrow> (Some err, s1)
            | Inr (entryID, c) \<Rightarrow>
                (None, s1\<lparr>s_cron := c,
                          s_entryIDs := (s_entryIDs s1)(Product_ID product \<mapsto> entryID)\<rparr>)))"

definition UnscheduleProduct :: "string \<Rightarrow> Scheduler \<Rightarrow> Scheduler" where
  "UnscheduleProduct productID s =
     (case s_entryIDs s productID of
        Some entryID \<Rightarrow>
          s\<lparr>s_cron := cron_Remove entryID (s_cron s),
            s_entryIDs := (s_entryIDs s)(productID := None)\<rparr>
      | None \<Rightarrow> s)"

text \<open>The registrations of a product: the cron entries whose job syncs it.\<close>

definition registrations :: "string \<Rightarrow> Scheduler \<Rightarrow> cron_entry list" where
  "registrations productID s =
     filter (\<lambda>e. entry_product e = productID) (cron_entries (s_cron s))"

definition buildDeliveryID :: "string \<Rightarrow> string \<Rightarrow> string" where
  "buildDeliveryID productID deliveryExternalID = productID @ '':'' @ deliveryExternalID"

definition buildFileID :: "string \<Rightarrow> string \<Rightarrow> string \<Rightarrow> string" where
  "buildFileID productID deliveryExternalID fileExternalID =
     productID @ '':'' @ deliveryExternalID @ '':'' @ fileExternalID"

definition s_Emit :: "Event \<Rightarrow> Scheduler \<Rightarrow> Scheduler" where
  "s_Emit event s = s\<lparr>s_hooks := s_hooks s @ [event]\<rparr>"

definition ensureDelivery :: "string \<Rightarrow> string \<Rightarrow> DeliveryInfo \<Rightarrow> Scheduler \<Rightarrow> Scheduler" where
  "ensureDelivery deliveryID productID info s =
     (if db_count_deliveries deliveryID (s_db s) > 0 then s
      else s\<lparr>s_db := db_create_delivery
                        \<lparr>Delivery_ID = deliveryID, Delivery_ProductID = productID,
                         Delivery_ExternalID = DeliveryInfo_ExternalID info,
                         Delivery_Name = DeliveryInfo_Name info\<rparr> (s_db s)\<rparr>)"

definition emitSyncFailed :: "string \<Rightarrow> string \<Rightarrow> string \<Rightarrow> Scheduler \<Rightarrow> Scheduler" where
  "emitSyncFailed sourceID productID err s =
     s_Emit (WithError ''SYNC_ERROR'' err (NewEvent EventSyncFailed sourceID)) s"

text \<open>The file row and the event \<open>syncProduct\<close> builds for a file it has not seen.\<close>

definition new_file :: "Product \<Rightarrow> string \<Rightarrow> DeliveryInfo \<Rightarrow> FileInfo \<Rightarrow> File" where
  "new_file product productID delivery fileInfo =
     \<lparr>File_ID = buildFileID productID (DeliveryInfo_ExternalID delivery)
                  (FileInfo_ExternalID fileInfo),
      File_DeliveryID = buildDeliveryID productID (DeliveryInfo_ExternalID delivery),
      File_ProductID = productID,
      File_SourceID = Product_SourceID product,
      File_ExternalID = FileInfo_ExternalID fileInfo,
      File_FileName = FileInfo_FileName fileInfo,
      File_FileSize = FileInfo_FileSize fileInfo,
      File_ExpectedChecksum = FileInfo_Checksum fileInfo,
      File_ChecksumAlgorithm = FileInfo_ChecksumAlgorithm fileInfo,
      File_DownloadURI = FileInfo_DownloadURI fileInfo,
      File_Skipped = False\<rparr>"

definition file_available_event :: "Product \<Rightarrow> string \<Rightarrow> DeliveryInfo \<Rightarrow> FileInfo \<Rightarrow> Event" where
  "file_available_event product productID delivery fileInfo =
     WithFile (buildFileID productID (DeliveryInfo_ExternalID delivery)
                 (FileInfo_ExternalID fileInfo))
       (FileInfo_FileName fileInfo) (FileInfo_FileSize fileInfo) (FileInfo_Checksum fileInfo) []
       (WithDelivery (buildDeliveryID productID (DeliveryInfo_ExternalID delivery))
          (DeliveryInfo_Name delivery)
          (WithProduct productID (Product_Name product)
             (NewEvent EventFileAvailable (Product_SourceID product))))"

text \<open>The inner loop of \<open>syncProduct\<close>, over the files of one delivery.\<close>

fun sync_files ::
  "Product \<Rightarrow> string \<Rightarrow> DeliveryInfo \<Rightarrow> FileInfo list \<Rightarrow> Scheduler \<Rightarrow> Scheduler" where
  "sync_files product productID delivery [] s = s"
| "sync_files product productID delivery (fileInfo # rest) s =
     (let fileID = buildFileID productID (DeliveryInfo_ExternalID delivery)
                     (FileInfo_ExternalID fileInfo)
      in if db_count_files fileID (s_db s) > 0
         then sync_files product productID delivery rest s
         else
           (let deliveryID = buildDeliveryID productID (DeliveryInfo_ExternalID delivery);
                file = new_file product productID delivery fileInfo;
                s1 = ensureDelivery deliveryID productID delivery s
            in case db_create_file file (s_db s1) of
                 Inl err \<Rightarrow> sync_files product productID delivery rest s1
               | Inr db1 \<Rightarrow>
                   (let s2 = s_Emit (file_available_event product productID delivery fileInfo)
                               (s1\<lparr>s_db := db1\<rparr>);
                        s3 = (if Product_AutoDownload product \<and> \<not> File_Skipped file
                              then s2\<lparr>s_started := s_started s2 @ [DownloadTask fileID]\<rparr>
                              else s2)
                    in sync_files product productID delivery rest s3)))"

text \<open>The outer loop, over the deliveries; a delivery whose files cannot be fetched is skipped.\<close>

fun sync_deliveries ::
  "Adapter \<Rightarrow> Product \<Rightarrow> string \<Rightarrow> DeliveryInfo list \<Rightarrow> Scheduler \<Rightarrow> Scheduler" where
  "sync_deliveries adapter product productID [] s = s"
| "sync_deliveries adapter product productID (delivery # rest) s =
     (case FetchFiles adapter (Product_ExternalID product) (DeliveryInfo_ExternalID delivery) of
        Inl err \<Rightarrow> sync_deliveries adapter product productID rest s
      | Inr fileInfos \<Rightarrow>
          sync_deliveries adapter product productID rest
            (sync_files product productID delivery fileInfos s))"

text \<open>\<open>syncProduct\<close>; \<open>now\<close> is the time written to \<open>LastCheckedAt\<close>.\<close>

definition syncProduct :: "nat \<Rightarrow> string \<Rightarrow> Scheduler \<Rightarrow> Scheduler" where
  "syncProduct now productID s =
     (case db_first_product productID (s_db s) of
        None \<Rightarrow> s
      | Some product \<Rightarrow>
          (case s_registry s (Product_SourceID product) of
             None \<Rightarrow> s
           | Some adapter \<Rightarrow>
               (case FetchDeliveries adapter (Product_ExternalID product) of
                  Inl err \<Rightarrow> emitSyncFailed (Product_SourceID product) productID err s
                | Inr deliveryInfos \<Rightarrow>
                    (let s1 = sync_deliveries adapter product productID deliveryInfos s;
                         s2 = s1\<lparr>s_db := db_save_product
                                             (product\<lparr>Product_LastCheckedAt := Some now\<rparr>)
                                             (s_db s1)\<rparr>
                     in s_Emit (WithProduct productID (Product_Name product)
                                  (NewEvent EventSyncCompleted (Product_SourceID product))) s2))))"

text \<open>\<open>SyncNow\<close> starts the sync as a task of its own and returns \<open>nil\<close>.\<close>

definition SyncNow :: "string \<Rightarrow> Scheduler \<Rightarrow> string option \<times> Scheduler" where
  "SyncNow productID s = (None, s\<lparr>s_started := s_started s @ [SyncTask productID]\<rparr>)"

text \<open>
  What a sync run discovers: the derived ids of the files the adapter lists, delivery by
  delivery, leaving out the deliveries whose files cannot be fetched.
\<close>

definition discovered_ids :: "Adapter \<Rightarrow> Product \<Rightarrow> string \<Rightarrow> DeliveryInfo list \<Rightarrow> string list" where
  "discovered_ids adapter product productID deliveryInfos =
     concat (map (\<lambda>delivery.
        case FetchFiles adapter (Product_ExternalID product) (DeliveryInfo_ExternalID delivery) of
          Inl err \<Rightarrow> []
        | Inr fileInfos \<Rightarrow>
            map (\<lambda>fileInfo. buildFileID productID (DeliveryInfo_ExternalID delivery)
                               (FileInfo_ExternalID fileInfo)) fileInfos) deliveryInfos)"

definition known_ids :: "Scheduler \<Rightarrow> string set" where
  "known_ids s = set (map File_ID (files (s_db s)))"

definition available_events :: "Scheduler \<Rightarrow> Event list" where
  "available_events s = filter (\<lambda>e. Event_Type e = EventFileAvailable) (s_hooks s)"


text \<open>A list without its repetitions, every element at its first place.\<close>

fun first_occurrences :: "'a list \<Rightarrow> 'a list" where
  "first_occurrences [] = []"
| "first_occurrences (x # xs) = x # first_occurrences (filter (\<lambda>y. y \<noteq> x) xs)"

subsection \<open>Sample data for the scheduler\<close>

text \<open>
  A product of source \<open>mock\<close> and adapters given by a listing: the external ids of the
  deliveries, each with the external ids of its files or with the error of fetching them.
\<close>

definition sample_product :: Product where
  "sample_product =
     \<lparr>Product_ID = ''prod'', Product_SourceID = ''mock'', Product_ExternalID = ''P'',
      Product_Name = ''Product'', Product_AutoDownload = True,
      Product_CheckWindowStart = ''0 6 * * *'', Product_LastCheckedAt = None\<rparr>"

definition sample_delivery :: "string \<Rightarrow> DeliveryInfo" where
  "sample_delivery ext = \<lparr>DeliveryInfo_ExternalID = ext, DeliveryInfo_Name = ext\<rparr>"

definition sample_fileInfo :: "string \<Rightarrow> FileInfo" where
  "sample_fileInfo ext =
     \<lparr>FileInfo_ExternalID = ext, FileInfo_FileName = ext @ ''.zip'', FileInfo_FileSize = 100,
      FileInfo_Checksum = [], FileInfo_ChecksumAlgorithm = ''md5'', FileInfo_DownloadURI = ext\<rparr>"

definition listing_adapter :: "(string \<times> (string + string list)) list \<Rightarrow> Adapter" where
  "listing_adapter listing =
     \<lparr>FetchDeliveries = (\<lambda>productID. Inr (map (\<lambda>row. sample_delivery (fst row)) listing)),
      FetchFiles = (\<lambda>productID deliveryID.
         case map_of listing deliveryID of
           None \<Rightarrow> Inl ''Delivery not found''
         | Some (Inl err) \<Rightarrow> Inl err
         | Some (Inr exts) \<Rightarrow> Inr (map sample_fileInfo exts)),
      DownloadFile = (\<lambda>file. ([], None))\<rparr>"

definition failing_adapter :: "string \<Rightarrow> Adapter" where
  "failing_adapter err =
     \<lparr>FetchDeliveries = (\<lambda>productID. Inl err),
      FetchFiles = (\<lambda>productID deliveryID. Inl err),
      DownloadFile = (\<lambda>file. ([], Some err))\<rparr>"

definition sample_scheduler :: "Adapter \<Rightarrow> File list \<Rightarrow> Scheduler" where
  "sample_scheduler adapter known =
     \<lparr>s_db = \<lparr>products = [sample_product], deliveries = [], files = known,
              download_entries = []\<rparr>,
      s_registry = [''mock'' \<mapsto> adapter],
      s_hooks = [],
      s_cron = cron_New,
      s_entryIDs = Map.empty,
      s_started = []\<rparr>"

text \<open>
  Two listings: three files of one delivery, the second of them stored already; and two
  files of two deliveries whose external ids contain the separator of the derived ids.
\<close>

definition three_files_adapter :: Adapter where
  "three_files_adapter = listing_adapter [(''latest'', Inr [''f1'', ''f2'', ''f3''])]"

definition one_known_scheduler :: Scheduler where
  "one_known_scheduler =
     sample_scheduler three_files_adapter
       [new_file sample_product ''prod'' (sample_delivery ''latest'') (sample_fileInfo ''f2'')]"

definition colliding_adapter :: Adapter where
  "colliding_adapter = listing_adapter [(''a'', Inr [''b:c'']), (''a:b'', Inr [''c''])]"

definition colliding_scheduler :: Scheduler where
  "colliding_scheduler = sample_scheduler colliding_adapter []"

text \<open>
  The cron parser on the expressions of the package's tests: the three schedules are
  accepted, anything else is rejected here.
\<close>

definition sample_parse :: "string \<Rightarrow> string option" where
  "sample_parse spec =
     (if spec \<in> {''0 6 * * *'', ''0 12 * * *'', ''0 */6 * * *''} then None
      else Some (''cannot parse schedule: '' @ spec))"

subsection \<open>Start-up and the invariant of the registry\<close>

text \<open>
  \<open>loadSchedules\<close> schedules every stored product with automatic download and a non-empty
  schedule, logging the errors; \<open>New\<close> builds the scheduler around an empty cron registry
  and loads the schedules.
\<close>

definition loadSchedules :: "(string \<Rightarrow> string option) \<Rightarrow> Scheduler \<Rightarrow> Scheduler" where
  "loadSchedules parse s =
     fold (\<lambda>product s1. snd (ScheduleProduct parse product s1))
       (filter (\<lambda>p. Product_AutoDownload p \<and> Product_CheckWindowStart p \<noteq> []) (products (s_db s)))
       s"

definition scheduler_New ::
  "(string \<Rightarrow> string option) \<Rightarrow> DB \<Rightarrow> (string \<rightharpoonup> Adapter) \<Rightarrow> Event list \<Rightarrow> Scheduler" where
  "scheduler_New parse db registry hooks =
     loadSchedules parse
       \<lparr>s_db = db, s_registry = registry, s_hooks = hooks, s_cron = cron_New,
        s_entryIDs = Map.empty, s_started = []\<rparr>"

text \<open>
  The invariant: every cron entry is the one \<open>entryIDs\<close> holds for its product, entry ids
  are pairwise distinct and none is beyond the last id given out.
\<close>

definition registry_consistent :: "Scheduler \<Rightarrow> bool" where
  "registry_consistent s \<longleftrightarrow>
     list_all (\<lambda>e. s_entryIDs s (entry_product e) = Some (entry_ID e)
                  \<and> entry_ID e \<le> cron_nextID (s_cron s)) (cron_entries (s_cron s))
     \<and> distinct (map entry_ID (cron_entries (s_cron s)))"


section \<open>Concurrent calls of \<open>Download\<close>\<close>

text \<open>
  Several tasks run \<open>Download\<close> on one downloader. Each task executes the statements of
  \<open>Download\<close> in order, and between two statements any other task may run; a statement is
  one step. \<open>sync.Map\<close> makes \<open>Load\<close> and \<open>Store\<close> atomic each, nothing more. The
  steps, by the place a task is at:
  \<^item> \<open>AtLoad\<close>: \<open>d.active.Load(fileID)\<close>; returns \<open>ErrDownloadInProgress\<close> when the id is
    in the registry;
  \<^item> \<open>AtFind\<close>: the store lookup of the file and the registry lookup of the adapter;
  \<^item> \<open>AtStore\<close>: \<open>d.active.Store(fileID, cancel)\<close>;
  \<^item> \<open>AtSelect\<close>: the \<open>select\<close> on the semaphore; the task takes a slot when fewer than
    \<open>MaxConcurrent\<close> are taken, and waits otherwise;
  \<^item> \<open>AtCreate\<close>: \<open>d.db.Create(entry)\<close>, which stores the new entry in status
    \<open>downloading\<close>;
  \<^item> \<open>Transferring\<close>: the task has started its transfer (the rest of \<open>Download\<close> is
    not followed here);
  \<^item> \<open>Returned\<close>: the call has returned before starting a transfer.
\<close>

datatype place =
  AtLoad
| AtFind
| AtStore File
| AtSelect File
| AtCreate File
| Transferring File nat
| Returned "download_error option"

record download_task =
  task_fileID :: string
  task_place :: place

record downloads =
  shared :: Downloader
  slots_taken :: nat
  MaxConcurrent :: nat
  tasks :: "download_task list"

definition task_step :: "download_task \<Rightarrow> downloads \<Rightarrow> download_task \<times> downloads" where
  "task_step t c =
     (let fileID = task_fileID t; d = shared c in
      case task_place t of
        AtLoad \<Rightarrow>
          (if fileID \<in> d_active d
           then (t\<lparr>task_place := Returned (Some ErrDownloadInProgress)\<rparr>, c)
           else (t\<lparr>task_place := AtFind\<rparr>, c))
      | AtFind \<Rightarrow>
          (case db_first_file fileID (d_db d) of
             None \<Rightarrow> (t\<lparr>task_place := Returned (Some ErrFileNotFound)\<rparr>, c)
           | Some file \<Rightarrow>
               (case d_registry d (File_SourceID file) of
                  None \<Rightarrow> (t\<lparr>task_place := Returned (Some ErrSourceNotFound)\<rparr>, c)
                | Some adapter \<Rightarrow> (t\<lparr>task_place := AtStore file\<rparr>, c)))
      | AtStore file \<Rightarrow>
          (t\<lparr>task_place := AtSelect file\<rparr>,
           c\<lparr>shared := d\<lparr>d_active := insert fileID (d_active d)\<rparr>\<rparr>)
      | AtSelect file \<Rightarrow>
          (if slots_taken c < MaxConcurrent c
           then (t\<lparr>task_place := AtCreate file\<rparr>, c\<lparr>slots_taken := Suc (slots_taken c)\<rparr>)
           else (t, c))
      | AtCreate file \<Rightarrow>
          (let (entry, db1) = db_create_entry (new_download_entry fileID) (d_db d)
           in (t\<lparr>task_place := Transferring file (DownloadEntry_ID entry)\<rparr>,
               c\<lparr>shared := emitEvent EventDownloadStarted file (d\<lparr>d_db := db1\<rparr>)\<rparr>))
      | Transferring file entryID \<Rightarrow> (t, c)
      | Returned res \<Rightarrow> (t, c))"

text \<open>A schedule names, step by step, the task that runs next.\<close>

definition run_task :: "nat \<Rightarrow> downloads \<Rightarrow> downloads" where
  "run_task i c =
     (if i < length (tasks c)
      then (let (t1, c1) = task_step (tasks c ! i) c
            in c1\<lparr>tasks := (tasks c1)[i := t1]\<rparr>)
      else c)"

fun run_schedule :: "nat list \<Rightarrow> downloads \<Rightarrow> downloads" where
  "run_schedule [] c = c"
| "run_schedule (i # schedule) c = run_schedule schedule (run_task i c)"

text \<open>
  Two calls of \<open>Download\<close> for the sample file on the downloader of the tests
  (\<open>MaxConcurrent = 2\<close>), both about to start.
\<close>

definition two_downloads :: downloads where
  "two_downloads =
     \<lparr>shared = test_downloader writing_adapter, slots_taken = 0, MaxConcurrent = 2,
      tasks = [\<lparr>task_fileID = ''file-1'', task_place = AtLoad\<rparr>,
               \<lparr>task_fileID = ''file-1'', task_place = AtLoad\<rparr>]\<rparr>"


section \<open>Properties of the event dispatcher\<close>

lemmas event_names =
  EventFileAvailable_def EventDownloadStarted_def EventDownloadCompleted_def
  EventDownloadFailed_def EventDownloadCancelled_def EventChecksumMismatch_def
  EventSyncCompleted_def EventSyncFailed_def

lemmas status_names =
  DownloadStatusPending_def DownloadStatusDownloading_def DownloadStatusCompleted_def
  DownloadStatusFailed_def DownloadStatusCancelled_def

lemma events_match_iff:
  "events_match es t \<longleftrightarrow> t \<in> set es \<or> ''*'' \<in> set es"
  by (induction es) auto

lemma matching_webhooks_filter:
  "matching_webhooks unmarshal whs t =
     filter (\<lambda>wh. case unmarshal (Webhook_Events wh) of
                    None \<Rightarrow> False
                  | Some es \<Rightarrow> t \<in> set es \<or> ''*'' \<in> set es) whs"
  by (induction whs) (auto simp: events_match_iff split: option.splits)

section \<open>Properties of the download orchestrator\<close>

lemma temp_path_differs: "p @ ''.tmp'' \<noteq> p"
  by (metis append_self_conv list.distinct(1))

lemma db_find_saved_entry:
  "db_find_entry (DownloadEntry_ID e) (db_save_entry e db) = Some e"
proof (cases "DownloadEntry_ID e \<in> set (map DownloadEntry_ID (download_entries db))")
  case True
  have "find (\<lambda>row. DownloadEntry_ID row = DownloadEntry_ID e)
          (map (\<lambda>row. if DownloadEntry_ID row = DownloadEntry_ID e then e else row) rows) = Some e"
    if "DownloadEntry_ID e \<in> set (map DownloadEntry_ID rows)" for rows
    using that by (induction rows) auto
  with True show ?thesis
    by (simp add: db_find_entry_def db_save_entry_def)
next
  case False
  have "find (\<lambda>row. DownloadEntry_ID row = DownloadEntry_ID e) (rows @ [e]) = Some e"
    if "DownloadEntry_ID e \<notin> set (map DownloadEntry_ID rows)" for rows
    using that by (induction rows) auto
  with False show ?thesis
    by (simp add: db_find_entry_def db_save_entry_def)
qed

lemma run_adapter_frame:
  "run_adapter acts fileID tempPath (entry, hashed, d) = (entry', hashed', d') \<Longrightarrow>
     d_hooks d' = d_hooks d \<and> d_active d' = d_active d \<and> d_registry d' = d_registry d
     \<and> d_DataDir d' = d_DataDir d
     \<and> (\<forall>p. p \<noteq> tempPath \<longrightarrow> d_fs d' p = d_fs d p)
     \<and> DownloadEntry_ID entry' = DownloadEntry_ID entry
     \<and> DownloadEntry_FileID entry' = DownloadEntry_FileID entry
     \<and> DownloadEntry_Status entry' = DownloadEntry_Status entry
     \<and> hashed' = hashed @ adapter_written acts"
proof (induction acts fileID tempPath "(entry, hashed, d)" arbitrary: entry hashed d
       rule: run_adapter.induct)
  case (1 fileID tempPath entry hashed d)
  then show ?case by simp
next
  case (2 p acts fileID tempPath entry hashed d)
  then show ?case by (auto split: option.splits)
next
  case (3 bytesWritten totalBytes acts fileID tempPath entry hashed d)
  then show ?case by (auto simp: Let_def)
qed

lemma run_adapter_temp:
  "run_adapter acts fileID tempPath (entry, hashed, d) = (entry', hashed', d') \<Longrightarrow>
   d_fs d tempPath = Some w \<Longrightarrow> d_fs d' tempPath = Some (w @ adapter_written acts)"
proof (induction acts fileID tempPath "(entry, hashed, d)" arbitrary: entry hashed d w
       rule: run_adapter.induct)
  case (1 fileID tempPath entry hashed d)
  then show ?case by simp
next
  case (2 p acts fileID tempPath entry hashed d)
  then show ?case by (auto split: option.splits)
next
  case (3 bytesWritten totalBytes acts fileID tempPath entry hashed d)
  then show ?case by (auto simp: Let_def)
qed

lemma handleError_frame:
  "handleError entry file code message err d = (res, d') \<Longrightarrow>
     d_fs d' = d_fs d \<and> d_active d' = d_active d \<and> d_progress d' = d_progress d
     \<and> res = Some (WrappedError message err)"
  by (auto simp: handleError_def hooks_Emit_def Let_def)

lemma handleCancelled_frame:
  "handleCancelled entry file d = (res, d') \<Longrightarrow>
     d_fs d' = d_fs d \<and> d_active d' = d_active d \<and> d_progress d' = d_progress d
     \<and> res = Some (ContextError Canceled)"
  by (auto simp: handleCancelled_def hooks_Emit_def Let_def)

lemma transfer_failure_fs:
  assumes "transfer env adapter file entry downloadPath d = (Some err, d')"
  shows "d_fs d' = (d_fs d)(downloadPath @ ''.tmp'' := None)"
proof -
  obtain acts aerr where df: "DownloadFile adapter (fileInfo_of file) = (acts, aerr)"
    by (cases "DownloadFile adapter (fileInfo_of file)")
  define d2 where "d2 = d\<lparr>d_fs := (d_fs d)(downloadPath @ ''.tmp'' \<mapsto> []),
       d_progress := progress_Start (File_ID file) (File_FileName file) (File_FileSize file)
                       (d_progress d)\<rparr>"
  obtain entry1 hashed d3 where ra:
    "run_adapter acts (File_ID file) (downloadPath @ ''.tmp'') (entry, [], d2) = (entry1, hashed, d3)"
    by (metis prod_cases3)
  from run_adapter_frame[OF ra]
  have fr: "\<forall>p. p \<noteq> downloadPath @ ''.tmp'' \<longrightarrow> d_fs d3 p = d_fs d2 p" by blast
  have fs3: "(d_fs d3)(downloadPath @ ''.tmp'' := None) = (d_fs d)(downloadPath @ ''.tmp'' := None)"
    using fr by (auto simp: d2_def fun_eq_iff)
  show ?thesis
    using assms df ra fs3 unfolding transfer_def d2_def[symmetric]
    by (auto simp: Let_def d2_def[symmetric] split: option.splits prod.splits if_splits
          dest!: handleError_frame handleCancelled_frame)
qed

lemma hooks_Emit_simps [simp]:
  "d_hooks (hooks_Emit ev d) = d_hooks d @ [ev]"
  "d_db (hooks_Emit ev d) = d_db d"
  "d_fs (hooks_Emit ev d) = d_fs d"
  "d_active (hooks_Emit ev d) = d_active d"
  "d_progress (hooks_Emit ev d) = d_progress d"
  "d_DataDir (hooks_Emit ev d) = d_DataDir d"
  "d_registry (hooks_Emit ev d) = d_registry d"
  by (simp_all add: hooks_Emit_def)

lemma transfer_adapter_failure:
  assumes df: "DownloadFile adapter (fileInfo_of file) = (acts, Some e)"
      and tr: "transfer env adapter file entry downloadPath d = (res, d')"
  shows "\<exists>entry1.
           DownloadEntry_ID entry1 = DownloadEntry_ID entry
         \<and> DownloadEntry_FileID entry1 = DownloadEntry_FileID entry
         \<and> (if ctx_after env = Some Canceled
            then res = Some (ContextError Canceled)
               \<and> db_find_entry (DownloadEntry_ID entry) (d_db d')
                   = Some (entry1\<lparr>DownloadEntry_Status := DownloadStatusCancelled\<rparr>)
               \<and> d_hooks d' = d_hooks d @
                    [WithFile (File_ID file) (File_FileName file) (File_FileSize file) [] []
                       (NewEvent EventDownloadCancelled (File_SourceID file))]
            else res = Some (WrappedError ''Download failed'' e)
               \<and> db_find_entry (DownloadEntry_ID entry) (d_db d')
                   = Some (entry1\<lparr>DownloadEntry_Status := DownloadStatusFailed,
                                   DownloadEntry_ErrorMessage := ''Download failed: '' @ e\<rparr>)
               \<and> d_hooks d' = d_hooks d @
                    [WithError ''DOWNLOAD_ERROR'' (''Download failed: '' @ e)
                       (WithFile (File_ID file) (File_FileName file) (File_FileSize file) [] []
                          (NewEvent EventDownloadFailed (File_SourceID file)))])"
proof -
  define d2 where "d2 = d\<lparr>d_fs := (d_fs d)(downloadPath @ ''.tmp'' \<mapsto> []),
       d_progress := progress_Start (File_ID file) (File_FileName file) (File_FileSize file)
                       (d_progress d)\<rparr>"
  obtain entry1 hashed d3 where ra:
    "run_adapter acts (File_ID file) (downloadPath @ ''.tmp'') (entry, [], d2) = (entry1, hashed, d3)"
    by (metis prod_cases3)
  from run_adapter_frame[OF ra]
  have fr: "d_hooks d3 = d_hooks d" "DownloadEntry_ID entry1 = DownloadEntry_ID entry"
    "DownloadEntry_FileID entry1 = DownloadEntry_FileID entry"
    by (simp_all add: d2_def)
  have find1: "db_find_entry (DownloadEntry_ID entry) (db_save_entry (entry1\<lparr>DownloadEntry_Status := s\<rparr>) db)
      = Some (entry1\<lparr>DownloadEntry_Status := s\<rparr>)" for s db
    using db_find_saved_entry[of "entry1\<lparr>DownloadEntry_Status := s\<rparr>" db] fr by simp
  have find2: "db_find_entry (DownloadEntry_ID entry)
        (db_save_entry (entry1\<lparr>DownloadEntry_Status := s, DownloadEntry_ErrorMessage := m\<rparr>) db)
      = Some (entry1\<lparr>DownloadEntry_Status := s, DownloadEntry_ErrorMessage := m\<rparr>)" for s m db
    using db_find_saved_entry[of "entry1\<lparr>DownloadEntry_Status := s, DownloadEntry_ErrorMessage := m\<rparr>" db] fr
    by simp
  show ?thesis
    apply (rule exI[of _ entry1])
    using tr df ra fr unfolding transfer_def d2_def[symmetric]
    by (auto simp: Let_def d2_def[symmetric] handleError_def handleCancelled_def find1 find2)
qed

lemma db_first_file_id: "db_first_file fileID db = Some file \<Longrightarrow> File_ID file = fileID"
  by (auto simp: db_first_file_def find_Some_iff)

lemma Download_reaches_transfer:
  assumes "fileID \<notin> d_active d"
      and "db_first_file fileID (d_db d) = Some file"
      and "d_registry d (File_SourceID file) = Some adapter"
      and "slot_wait env = None" and "create_entry_err env = None"
      and "mkdir_err env = None" and "create_temp_err env = None"
      and "Download env fileID d = (res, d')"
  shows "\<exists>d2. transfer env adapter file
                (fst (db_create_entry (new_download_entry fileID) (d_db d)))
                (getDownloadPath d file)
                (emitEvent EventDownloadStarted file
                   (d\<lparr>d_active := insert fileID (d_active d),
                      d_db := snd (db_create_entry (new_download_entry fileID) (d_db d))\<rparr>))
              = (res, d2)
           \<and> d' = d2\<lparr>d_active := d_active d2 - {fileID}\<rparr>"
  using assms db_first_file_id[OF assms(2)]
  by (auto simp: Download_def download_registered_def Let_def getDownloadPath_def emitEvent_def
        hooks_Emit_def split: prod.splits)

lemma created_entry_facts:
  "DownloadEntry_ID (fst (db_create_entry (new_download_entry fileID) db))
     = next_entry_id (download_entries db)"
  "DownloadEntry_FileID (fst (db_create_entry (new_download_entry fileID) db)) = fileID"
  by (simp_all add: db_create_entry_def new_download_entry_def Let_def)

lemma transfer_success:
  assumes tr: "transfer env adapter file entry downloadPath d = (None, d')"
  shows "\<exists>entry1 content.
           DownloadEntry_FileID entry1 = DownloadEntry_FileID entry
         \<and> content = adapter_written (fst (DownloadFile adapter (fileInfo_of file)))
         \<and> d_fs d' downloadPath = Some content
         \<and> d_fs d' (downloadPath @ ''.tmp'') = None
         \<and> db_find_entry (DownloadEntry_ID entry) (d_db d')
              = Some (entry1\<lparr>DownloadEntry_Status := DownloadStatusCompleted,
                              DownloadEntry_LocalPath := downloadPath,
                              DownloadEntry_LocalChecksum :=
                                ''sha256:'' @ hex_EncodeToString (sha256 content)\<rparr>)
         \<and> d_hooks d' = d_hooks d @
              [WithFile (File_ID file) (File_FileName file) (File_FileSize file)
                 (''sha256:'' @ hex_EncodeToString (sha256 content)) downloadPath
                 (NewEvent EventDownloadCompleted (File_SourceID file))]"
proof -
  obtain acts aerr where df: "DownloadFile adapter (fileInfo_of file) = (acts, aerr)"
    by (cases "DownloadFile adapter (fileInfo_of file)")
  define d2 where "d2 = d\<lparr>d_fs := (d_fs d)(downloadPath @ ''.tmp'' \<mapsto> []),
       d_progress := progress_Start (File_ID file) (File_FileName file) (File_FileSize file)
                       (d_progress d)\<rparr>"
  obtain entry1 hashed d3 where ra:
    "run_adapter acts (File_ID file) (downloadPath @ ''.tmp'') (entry, [], d2) = (entry1, hashed, d3)"
    by (metis prod_cases3)
  have tmp2: "d_fs d2 (downloadPath @ ''.tmp'') = Some []" by (simp add: d2_def)
  from run_adapter_frame[OF ra] run_adapter_temp[OF ra tmp2]
  have fr: "d_hooks d3 = d_hooks d" "DownloadEntry_ID entry1 = DownloadEntry_ID entry"
    "DownloadEntry_FileID entry1 = DownloadEntry_FileID entry"
    "hashed = adapter_written acts" "d_fs d3 (downloadPath @ ''.tmp'') = Some (adapter_written acts)"
    by (simp_all add: d2_def)
  have find3: "db_find_entry (DownloadEntry_ID entry)
        (db_save_entry (entry1\<lparr>DownloadEntry_Status := s, DownloadEntry_LocalPath := p,
                               DownloadEntry_LocalChecksum := c\<rparr>) db)
      = Some (entry1\<lparr>DownloadEntry_Status := s, DownloadEntry_LocalPath := p,
                               DownloadEntry_LocalChecksum := c\<rparr>)" for s p c db
    using db_find_saved_entry[of "entry1\<lparr>DownloadEntry_Status := s, DownloadEntry_LocalPath := p,
                               DownloadEntry_LocalChecksum := c\<rparr>" db] fr
    by simp
  show ?thesis
    apply (rule exI[of _ entry1])
    using tr df ra fr temp_path_differs[of downloadPath] unfolding transfer_def d2_def[symmetric]
    by (auto simp: Let_def d2_def[symmetric] handleError_def handleCancelled_def find3
          emitCompletedEvent_def split: option.splits if_splits)
qed

lemma Download_success_reached:
  assumes "db_first_file fileID (d_db d) = Some file"
      and "Download env fileID d = (None, d')"
  shows "fileID \<notin> d_active d \<and> (\<exists>adapter. d_registry d (File_SourceID file) = Some adapter)
       \<and> slot_wait env = None \<and> create_entry_err env = None
       \<and> mkdir_err env = None \<and> create_temp_err env = None"
  using assms
  by (auto simp: Download_def download_registered_def Let_def handleError_def
        split: if_splits option.splits prod.splits)

lemma Download_result_collapse:
  "Download env fileID d = (fst (Download env fileID d), snd (Download env fileID d))"
  by simp

subsection \<open>Evaluation of the sample data\<close>

lemma test_downloader_fields:
  "d_db (test_downloader a)
     = \<lparr>products = [], deliveries = [], files = [test_file], download_entries = []\<rparr>"
  "d_registry (test_downloader a) = [''mock'' \<mapsto> a]"
  "d_hooks (test_downloader a) = []"
  "d_DataDir (test_downloader a) = ''/data''"
  "d_active (test_downloader a) = {}"
  "d_progress (test_downloader a) = Map.empty"
  "d_fs (test_downloader a) = Map.empty"
  by (simp_all add: test_downloader_def)

lemma test_file_path:
  "getDownloadPath d test_file
     = filepath_Join [DownloadsPath (d_DataDir d), ''mock'', ''prod'', ''test.txt'']"
  by (simp add: getDownloadPath_def test_file_def)

lemma test_downloads_path:
  "filepath_Join [DownloadsPath ''/data'', ''mock'', ''prod'', ''test.txt'']
     = ''/data/downloads/mock/prod/test.txt''"
  by (simp add: DownloadsPath_def filepath_Join_def filepath_Clean_def)

lemma test_file_found:
  "db_first_file ''file-1''
     \<lparr>products = ps, deliveries = ds, files = [test_file], download_entries = es\<rparr>
   = Some test_file"
  by (simp add: db_first_file_def test_file_def)

lemma test_file_fields:
  "File_SourceID test_file = ''mock''"
  "File_ID test_file = ''file-1''"
  "File_ChecksumAlgorithm test_file = ''md5''"
  by (simp_all add: test_file_def)

lemma sample_adapter_runs:
  "DownloadFile writing_adapter f = ([Write test_content, Progress 12 12], None)"
  "DownloadFile (blocked_adapter e) f = ([], Some e)"
  "DownloadFile partial_adapter f
     = ([Write [0x74, 0x65], Progress 2 100], Some ''connection reset by peer'')"
  by (simp_all add: writing_adapter_def blocked_adapter_def partial_adapter_def)

lemmas download_eval =
  Download_def download_registered_def transfer_def handleError_def handleCancelled_def
  test_file_found Let_def env_ok_def test_downloader_fields test_file_fields sample_adapter_runs
  db_create_entry_def emitEvent_def emitCompletedEvent_def hooks_Emit_def split_beta
  test_file_path test_downloads_path db_save_entry_def next_entry_id_def new_download_entry_def
  NewEvent_def WithFile_def WithError_def

text \<open>The digest of \<open>abc\<close> from FIPS 180-4, computed by the definitions above.\<close>

lemma sha256_abc:
  "hex_EncodeToString (sha256 [0x61, 0x62, 0x63])
     = ''ba7816bf8f01cfea414140de5dae2223b00361a396177a9cb410ff61f20015ad''"
  by code_simp

section \<open>Claims about the download orchestrator\<close>

text \<open>
  Claim C2, as amended. For every call of \<open>Download\<close> that returns \<open>nil\<close>: the final path
  holds a file; the entry the call created is stored with status \<open>completed\<close>, the final
  path as its local path, and as its checksum the text \<open>sha256:\<close> followed by the lowercase
  hexadecimal SHA-256 digest of exactly the bytes at the final path; and the last event emitted
  is a \<open>download.completed\<close> event carrying the file's id, name and size, that checksum and
  that path. The prefix is always \<open>sha256\<close>, whatever checksum algorithm the file declares.
\<close>

theorem Download_completed_checksum:
  assumes "db_first_file fileID (d_db d) = Some file"
      and "Download env fileID d = (None, d')"
  shows "\<exists>content entry.
           d_fs d' (getDownloadPath d file) = Some content
         \<and> db_find_entry (next_entry_id (download_entries (d_db d))) (d_db d') = Some entry
         \<and> DownloadEntry_FileID entry = fileID
         \<and> DownloadEntry_Status entry = DownloadStatusCompleted
         \<and> DownloadEntry_LocalPath entry = getDownloadPath d file
         \<and> DownloadEntry_LocalChecksum entry = ''sha256:'' @ hex_EncodeToString (sha256 content)
         \<and> last (d_hooks d')
             = WithFile fileID (File_FileName file) (File_FileSize file)
                 (''sha256:'' @ hex_EncodeToString (sha256 content)) (getDownloadPath d file)
                 (NewEvent EventDownloadCompleted (File_SourceID file))"
proof -
  from Download_success_reached[OF assms]
  obtain adapter where pre: "fileID \<notin> d_active d" "d_registry d (File_SourceID file) = Some adapter"
    "slot_wait env = None" "create_entry_err env = None" "mkdir_err env = None"
    "create_temp_err env = None" by blast
  from Download_reaches_transfer[OF pre(1) assms(1) pre(2-6) assms(2)]
  obtain d2 where tr: "transfer env adapter file
                (fst (db_create_entry (new_download_entry fileID) (d_db d)))
                (getDownloadPath d file)
                (emitEvent EventDownloadStarted file
                   (d\<lparr>d_active := insert fileID (d_active d),
                      d_db := snd (db_create_entry (new_download_entry fileID) (d_db d))\<rparr>))
              = (None, d2)"
    and d': "d' = d2\<lparr>d_active := d_active d2 - {fileID}\<rparr>" by blast
  from transfer_success[OF tr] db_first_file_id[OF assms(1)]
  show ?thesis
    unfolding created_entry_facts d'
    by (auto simp: emitEvent_def)
qed

text \<open>
  Witness for C2: the sample file, downloaded through the adapter that writes
  \<open>test content\<close>.
\<close>

theorem Download_completed_checksum_witness:
  "db_first_file ''file-1'' (d_db (test_downloader writing_adapter)) = Some test_file
   \<and> fst (Download env_ok ''file-1'' (test_downloader writing_adapter)) = None
   \<and> d_fs (snd (Download env_ok ''file-1'' (test_downloader writing_adapter)))
        ''/data/downloads/mock/prod/test.txt'' = Some test_content
   \<and> map DownloadEntry_LocalChecksum
        (download_entries (d_db (snd (Download env_ok ''file-1'' (test_downloader writing_adapter)))))
      = [''sha256:'' @ hex_EncodeToString (sha256 test_content)]
   \<and> (\<exists>content entry.
         d_fs (snd (Download env_ok ''file-1'' (test_downloader writing_adapter)))
           (getDownloadPath (test_downloader writing_adapter) test_file) = Some content
       \<and> db_find_entry 1 (d_db (snd (Download env_ok ''file-1'' (test_downloader writing_adapter))))
           = Some entry
       \<and> DownloadEntry_Status entry = DownloadStatusCompleted
       \<and> DownloadEntry_LocalChecksum entry = ''sha256:'' @ hex_EncodeToString (sha256 content))"
proof -
  have found: "db_first_file ''file-1'' (d_db (test_downloader writing_adapter)) = Some test_file"
    by (simp add: test_downloader_fields test_file_found)
  have ok: "fst (Download env_ok ''file-1'' (test_downloader writing_adapter)) = None"
    by (simp add: download_eval)
  have run: "Download env_ok ''file-1'' (test_downloader writing_adapter)
               = (None, snd (Download env_ok ''file-1'' (test_downloader writing_adapter)))"
    using ok Download_result_collapse[of env_ok "''file-1''" "test_downloader writing_adapter"]
    by simp
  have final: "d_fs (snd (Download env_ok ''file-1'' (test_downloader writing_adapter)))
        ''/data/downloads/mock/prod/test.txt'' = Some test_content"
    by (simp add: download_eval)
  have sums: "map DownloadEntry_LocalChecksum
        (download_entries (d_db (snd (Download env_ok ''file-1'' (test_downloader writing_adapter)))))
      = [''sha256:'' @ hex_EncodeToString (sha256 test_content)]"
    by (simp add: download_eval)
  have nid: "next_entry_id (download_entries (d_db (test_downloader writing_adapter))) = 1"
    by (simp add: next_entry_id_def test_downloader_fields)
  from Download_completed_checksum[OF found run]
  show ?thesis
    using found ok final sums unfolding nid by blast
qed

text \<open>
  Counterexample to C2 as stated: the sample file declares the algorithm \<open>md5\<close>; its
  download completes, and the checksum recorded starts with \<open>sha256:\<close>, not with the
  declared algorithm.
\<close>

theorem Download_declared_algorithm_counterexample:
  "fst (Download env_ok ''file-1'' (test_downloader writing_adapter)) = None
   \<and> File_ChecksumAlgorithm test_file = ''md5''
   \<and> map DownloadEntry_LocalChecksum
        (download_entries (d_db (snd (Download env_ok ''file-1'' (test_downloader writing_adapter)))))
      = [''sha256:'' @ hex_EncodeToString (sha256 test_content)]
   \<and> \<not> (\<exists>digest.
          map DownloadEntry_LocalChecksum
            (download_entries
               (d_db (snd (Download env_ok ''file-1'' (test_downloader writing_adapter)))))
          = [File_ChecksumAlgorithm test_file @ '':'' @ digest])
   \<and> \<not> (\<exists>digest.
          map (\<lambda>ev. map_option EventFile_Checksum (Event_File ev))
            [last (d_hooks (snd (Download env_ok ''file-1'' (test_downloader writing_adapter))))]
          = [Some (File_ChecksumAlgorithm test_file @ '':'' @ digest)])"
  by (simp add: download_eval)

lemma download_registered_failure_fs:
  assumes "download_registered env adapter file d = (Some err, d')"
  shows "if slot_wait env = None \<and> create_entry_err env = None \<and> mkdir_err env = None
            \<and> create_temp_err env = None
         then d_fs d' = (d_fs d)(getDownloadPath d file @ ''.tmp'' := None)
         else d_fs d' = d_fs d"
  using assms unfolding download_registered_def
  by (auto simp: Let_def emitEvent_def hooks_Emit_def getDownloadPath_def
        split: option.splits prod.splits
        dest!: handleError_frame transfer_failure_fs)


text \<open>
  Claim C3, as amended. For every call of \<open>Download\<close> that reaches the adapter and whose
  adapter call returns an error: when the scope's error is \<open>context.Canceled\<close>, the call
  returns \<open>context.Canceled\<close>, the entry it created is stored with status \<open>cancelled\<close> and
  a \<open>download.cancelled\<close> event follows the \<open>download.started\<close> event; in every other
  case, an elapsed timeout (\<open>context.DeadlineExceeded\<close>) included, the call returns the
  wrapped error, the entry is stored with status \<open>failed\<close> and the error text
  \<open>Download failed: <error>\<close>, and a \<open>download.failed\<close> event with code
  \<open>DOWNLOAD_ERROR\<close> and that text follows the \<open>download.started\<close> event.
\<close>

theorem Download_adapter_failure:
  assumes "fileID \<notin> d_active d"
      and "db_first_file fileID (d_db d) = Some file"
      and "d_registry d (File_SourceID file) = Some adapter"
      and "slot_wait env = None" and "create_entry_err env = None"
      and "mkdir_err env = None" and "create_temp_err env = None"
      and "DownloadFile adapter (fileInfo_of file) = (acts, Some e)"
      and "Download env fileID d = (res, d')"
  shows "\<exists>entry. db_find_entry (next_entry_id (download_entries (d_db d))) (d_db d') = Some entry
           \<and> DownloadEntry_FileID entry = fileID
           \<and> (if ctx_after env = Some Canceled
              then res = Some (ContextError Canceled)
                 \<and> DownloadEntry_Status entry = DownloadStatusCancelled
                 \<and> map Event_Type (d_hooks d')
                     = map Event_Type (d_hooks d) @ [EventDownloadStarted, EventDownloadCancelled]
              else res = Some (WrappedError ''Download failed'' e)
                 \<and> DownloadEntry_Status entry = DownloadStatusFailed
                 \<and> DownloadEntry_ErrorMessage entry = ''Download failed: '' @ e
                 \<and> map Event_Type (d_hooks d')
                     = map Event_Type (d_hooks d) @ [EventDownloadStarted, EventDownloadFailed]
                 \<and> Event_Error (last (d_hooks d'))
                     = Some \<lparr>EventError_Code = ''DOWNLOAD_ERROR'',
                             EventError_Message = ''Download failed: '' @ e\<rparr>)"
proof -
  from Download_reaches_transfer[OF assms(1-7) assms(9)]
  obtain d2 where tr: "transfer env adapter file
                (fst (db_create_entry (new_download_entry fileID) (d_db d)))
                (getDownloadPath d file)
                (emitEvent EventDownloadStarted file
                   (d\<lparr>d_active := insert fileID (d_active d),
                      d_db := snd (db_create_entry (new_download_entry fileID) (d_db d))\<rparr>))
              = (res, d2)"
    and d': "d' = d2\<lparr>d_active := d_active d2 - {fileID}\<rparr>" by blast
  from transfer_adapter_failure[OF assms(8) tr]
  show ?thesis
    unfolding created_entry_facts d'
    by (auto simp: emitEvent_def NewEvent_def WithFile_def WithError_def split: if_splits)
qed


text \<open>
  Witness for C3: the adapter returns the error of its cancelled context.
\<close>

theorem Download_adapter_failure_witness:
  "''file-1'' \<notin> d_active (test_downloader (blocked_adapter ''context canceled''))
   \<and> db_first_file ''file-1'' (d_db (test_downloader (blocked_adapter ''context canceled''))) = Some test_file
   \<and> d_registry (test_downloader (blocked_adapter ''context canceled'')) (File_SourceID test_file) = Some (blocked_adapter ''context canceled'')
   \<and> DownloadFile (blocked_adapter ''context canceled'') (fileInfo_of test_file)
        = ([], Some ''context canceled'')
   \<and> ctx_after (env_ok\<lparr>ctx_after := Some Canceled\<rparr>) = Some Canceled
   \<and> fst (Download (env_ok\<lparr>ctx_after := Some Canceled\<rparr>) ''file-1'' (test_downloader (blocked_adapter ''context canceled''))) = Some (ContextError Canceled)
   \<and> map DownloadEntry_Status (download_entries (d_db (snd (Download (env_ok\<lparr>ctx_after := Some Canceled\<rparr>) ''file-1'' (test_downloader (blocked_adapter ''context canceled''))))))
        = [DownloadStatusCancelled]
   \<and> map Event_Type (d_hooks (snd (Download (env_ok\<lparr>ctx_after := Some Canceled\<rparr>) ''file-1'' (test_downloader (blocked_adapter ''context canceled'')))))
        = [EventDownloadStarted, EventDownloadCancelled]"
proof -
  have pre: "''file-1'' \<notin> d_active (test_downloader (blocked_adapter ''context canceled''))"
    "db_first_file ''file-1'' (d_db (test_downloader (blocked_adapter ''context canceled''))) = Some test_file"
    "d_registry (test_downloader (blocked_adapter ''context canceled'')) (File_SourceID test_file) = Some (blocked_adapter ''context canceled'')"
    "slot_wait (env_ok\<lparr>ctx_after := Some Canceled\<rparr>) = None" "create_entry_err (env_ok\<lparr>ctx_after := Some Canceled\<rparr>) = None"
    "mkdir_err (env_ok\<lparr>ctx_after := Some Canceled\<rparr>) = None" "create_temp_err (env_ok\<lparr>ctx_after := Some Canceled\<rparr>) = None"
    "DownloadFile (blocked_adapter ''context canceled'') (fileInfo_of test_file)
        = ([], Some ''context canceled'')"
    by (simp_all add: test_downloader_fields test_file_found test_file_fields env_ok_def
          sample_adapter_runs)
  have ctx: "ctx_after (env_ok\<lparr>ctx_after := Some Canceled\<rparr>) = Some Canceled"
    by simp
  have rows: "map DownloadEntry_Status (download_entries (d_db (snd (Download (env_ok\<lparr>ctx_after := Some Canceled\<rparr>) ''file-1'' (test_downloader (blocked_adapter ''context canceled''))))))
        = [DownloadStatusCancelled]"
    by (simp add: download_eval)
  from Download_adapter_failure[OF pre Download_result_collapse]
  show ?thesis
    using pre(1-3,8) ctx rows by (auto simp: test_downloader_fields)
qed

text \<open>
  Counterexample to C3 as stated: the timeout of the scope elapses and the adapter returns
  the error of its context. The entry is stored as \<open>failed\<close>, not \<open>cancelled\<close>, and the
  event emitted is \<open>download.failed\<close>; no \<open>download.cancelled\<close> event is emitted.
\<close>

theorem Download_timeout_counterexample:
  "ctx_after (env_ok\<lparr>ctx_after := Some DeadlineExceeded\<rparr>) = Some DeadlineExceeded
   \<and> DownloadFile (blocked_adapter ''context deadline exceeded'') (fileInfo_of test_file)
        = ([], Some ''context deadline exceeded'')
   \<and> fst (Download (env_ok\<lparr>ctx_after := Some DeadlineExceeded\<rparr>) ''file-1'' (test_downloader (blocked_adapter ''context deadline exceeded'')))
        = Some (WrappedError ''Download failed'' ''context deadline exceeded'')
   \<and> map DownloadEntry_Status (download_entries (d_db (snd (Download (env_ok\<lparr>ctx_after := Some DeadlineExceeded\<rparr>) ''file-1'' (test_downloader (blocked_adapter ''context deadline exceeded''))))))
        = [DownloadStatusFailed]
   \<and> DownloadStatusFailed \<noteq> DownloadStatusCancelled
   \<and> map Event_Type (d_hooks (snd (Download (env_ok\<lparr>ctx_after := Some DeadlineExceeded\<rparr>) ''file-1'' (test_downloader (blocked_adapter ''context deadline exceeded'')))))
        = [EventDownloadStarted, EventDownloadFailed]
   \<and> EventDownloadCancelled \<notin> set (map Event_Type (d_hooks (snd (Download (env_ok\<lparr>ctx_after := Some DeadlineExceeded\<rparr>) ''file-1'' (test_downloader (blocked_adapter ''context deadline exceeded''))))))"
  by (simp add: download_eval event_names status_names)

text \<open>
  Claim C4. For every call of \<open>Download\<close> that reaches the wait for a concurrency slot
  (the file id is not in flight, the file is stored, its source has an adapter) and whose scope
  is done before a slot is free, with error \<open>e\<close>: the call returns \<open>e\<close> and leaves the
  downloader as it was. No download entry is created, no event is emitted, no progress
  record is registered, no file is written, and the file id is out of the in-flight registry
  again.
\<close>

theorem Download_slot_wait_cancelled:
  assumes "fileID \<notin> d_active d"
      and "db_first_file fileID (d_db d) = Some file"
      and "d_registry d (File_SourceID file) = Some adapter"
      and "slot_wait env = Some e"
  shows "Download env fileID d = (Some (ContextError e), d)"
  using assms by (simp add: Download_def download_registered_def)

text \<open>
  Witness for C4: the timeout elapses while the sample download waits for a slot.
\<close>

theorem Download_slot_wait_cancelled_witness:
  "''file-1'' \<notin> d_active (test_downloader writing_adapter)
   \<and> db_first_file ''file-1'' (d_db (test_downloader writing_adapter)) = Some test_file
   \<and> d_registry (test_downloader writing_adapter) (File_SourceID test_file) = Some writing_adapter
   \<and> slot_wait (env_ok\<lparr>slot_wait := Some DeadlineExceeded\<rparr>) = Some DeadlineExceeded
   \<and> Download (env_ok\<lparr>slot_wait := Some DeadlineExceeded\<rparr>) ''file-1'' (test_downloader writing_adapter)
        = (Some (ContextError DeadlineExceeded), test_downloader writing_adapter)
   \<and> download_entries (d_db (snd (Download (env_ok\<lparr>slot_wait := Some DeadlineExceeded\<rparr>) ''file-1'' (test_downloader writing_adapter)))) = []
   \<and> d_hooks (snd (Download (env_ok\<lparr>slot_wait := Some DeadlineExceeded\<rparr>) ''file-1'' (test_downloader writing_adapter))) = []"
proof -
  have pre: "''file-1'' \<notin> d_active (test_downloader writing_adapter)"
    "db_first_file ''file-1'' (d_db (test_downloader writing_adapter)) = Some test_file"
    "d_registry (test_downloader writing_adapter) (File_SourceID test_file) = Some writing_adapter"
    "slot_wait (env_ok\<lparr>slot_wait := Some DeadlineExceeded\<rparr>) = Some DeadlineExceeded"
    by (simp_all add: test_downloader_fields test_file_found test_file_fields)
  from Download_slot_wait_cancelled[OF pre]
  show ?thesis
    using pre by (simp add: test_downloader_fields)
qed

lemma Download_error_leaves_files:
  assumes "db_first_file fileID (d_db d) = Some file"
      and "Download env fileID d = (Some err, d')"
  shows "d_fs d' (getDownloadPath d file) = d_fs d (getDownloadPath d file)
       \<and> (\<forall>p. p \<noteq> getDownloadPath d file @ ''.tmp'' \<longrightarrow> d_fs d' p = d_fs d p)
       \<and> (fileID \<notin> d_active d \<and> d_registry d (File_SourceID file) \<noteq> None
            \<and> slot_wait env = None \<and> create_entry_err env = None \<and> mkdir_err env = None
            \<and> create_temp_err env = None
          \<longrightarrow> d_fs d' (getDownloadPath d file @ ''.tmp'') = None)"
proof (cases "fileID \<in> d_active d \<or> d_registry d (File_SourceID file) = None")
  case True
  with assms have "d' = d"
    by (auto simp: Download_def split: if_splits option.splits)
  with True show ?thesis by auto
next
  case False
  then obtain adapter where ad: "d_registry d (File_SourceID file) = Some adapter"
    and na: "fileID \<notin> d_active d" by auto
  obtain res d1 where dr:
    "download_registered env adapter file (d\<lparr>d_active := insert fileID (d_active d)\<rparr>) = (res, d1)"
    by (cases "download_registered env adapter file (d\<lparr>d_active := insert fileID (d_active d)\<rparr>)")
  from assms ad na dr have res: "res = Some err" and d': "d' = d1\<lparr>d_active := d_active d1 - {fileID}\<rparr>"
    by (auto simp: Download_def)
  have path: "getDownloadPath (d\<lparr>d_active := insert fileID (d_active d)\<rparr>) file = getDownloadPath d file"
    by (simp add: getDownloadPath_def)
  from download_registered_failure_fs[OF dr[unfolded res]]
  show ?thesis
    using temp_path_differs[of "getDownloadPath d file"]
    by (auto simp: d' path split: if_splits)
qed

lemma Download_returns_nil_iff:
  assumes "db_first_file fileID (d_db d) = Some file"
  shows "fst (Download env fileID d) = None \<longleftrightarrow>
           fileID \<notin> d_active d
         \<and> (\<exists>adapter. d_registry d (File_SourceID file) = Some adapter
                \<and> snd (DownloadFile adapter (fileInfo_of file)) = None)
         \<and> slot_wait env = None \<and> create_entry_err env = None \<and> mkdir_err env = None
         \<and> create_temp_err env = None \<and> rename_err env = None"
  using assms
  by (auto simp: Download_def download_registered_def transfer_def Let_def handleError_def
        handleCancelled_def split_beta split: option.splits if_splits)

text \<open>
  Claim C5. For every call of \<open>Download\<close> for a stored file: when anything on its way
  fails (the id is in flight, the source has no adapter, the scope is done while the call
  waits for a slot, the entry, the directory or the temporary file cannot be created, the
  adapter returns an error, be it the error of a cancelled or timed-out scope or any
  other, or the rename fails), the call returns an error, the final path holds what it held
  before the call, every path but the temporary one is untouched, and when the call got as
  far as creating the temporary file \<open><final path>.tmp\<close>, that file is gone at the end.
  Only when nothing fails does the call return \<open>nil\<close>: the rename to the final path is
  on the success path alone.
\<close>

theorem Download_failure_keeps_final_path:
  assumes "db_first_file fileID (d_db d) = Some file"
  shows "if fileID \<in> d_active d
            \<or> d_registry d (File_SourceID file) = None
            \<or> slot_wait env \<noteq> None \<or> create_entry_err env \<noteq> None
            \<or> mkdir_err env \<noteq> None \<or> create_temp_err env \<noteq> None
            \<or> (\<exists>adapter e. d_registry d (File_SourceID file) = Some adapter
                   \<and> snd (DownloadFile adapter (fileInfo_of file)) = Some e)
            \<or> rename_err env \<noteq> None
         then fst (Download env fileID d) \<noteq> None
            \<and> d_fs (snd (Download env fileID d)) (getDownloadPath d file)
                = d_fs d (getDownloadPath d file)
            \<and> (\<forall>p. p \<noteq> getDownloadPath d file @ ''.tmp''
                   \<longrightarrow> d_fs (snd (Download env fileID d)) p = d_fs d p)
            \<and> (fileID \<notin> d_active d \<and> d_registry d (File_SourceID file) \<noteq> None
                  \<and> slot_wait env = None \<and> create_entry_err env = None
                  \<and> mkdir_err env = None \<and> create_temp_err env = None
                \<longrightarrow> d_fs (snd (Download env fileID d)) (getDownloadPath d file @ ''.tmp'') = None)
         else fst (Download env fileID d) = None"
proof (cases "fst (Download env fileID d)")
  case None
  with Download_returns_nil_iff[OF assms, of env] show ?thesis
    by auto
next
  case (Some err)
  then have run: "Download env fileID d = (Some err, snd (Download env fileID d))"
    by (metis prod.collapse)
  from Some Download_returns_nil_iff[OF assms, of env]
  have failing: "fileID \<in> d_active d
            \<or> d_registry d (File_SourceID file) = None
            \<or> slot_wait env \<noteq> None \<or> create_entry_err env \<noteq> None
            \<or> mkdir_err env \<noteq> None \<or> create_temp_err env \<noteq> None
            \<or> (\<exists>adapter e. d_registry d (File_SourceID file) = Some adapter
                   \<and> snd (DownloadFile adapter (fileInfo_of file)) = Some e)
            \<or> rename_err env \<noteq> None"
    by (cases "d_registry d (File_SourceID file)") auto
  from Download_error_leaves_files[OF assms run] Some failing
  show ?thesis by simp
qed


text \<open>
  Witness for C5, at two failing transfers over a final path that holds an earlier
  download: the scope is cancelled and the adapter returns its error; and the adapter
  writes two bytes and fails with a network error. Both calls return an error, the earlier
  file is still at the final path, and no temporary file is left.
\<close>

theorem Download_failure_keeps_final_path_witness:
  "db_first_file ''file-1'' (d_db (earlier_download (test_downloader (blocked_adapter ''context canceled'')))) = Some test_file
   \<and> d_registry (earlier_download (test_downloader (blocked_adapter ''context canceled''))) (File_SourceID test_file)
        = Some (blocked_adapter ''context canceled'')
   \<and> snd (DownloadFile (blocked_adapter ''context canceled'') (fileInfo_of test_file))
        = Some ''context canceled''
   \<and> fst (Download (env_ok\<lparr>ctx_after := Some Canceled\<rparr>) ''file-1'' (earlier_download (test_downloader (blocked_adapter ''context canceled'')))) = Some (ContextError Canceled)
   \<and> d_fs (snd (Download (env_ok\<lparr>ctx_after := Some Canceled\<rparr>) ''file-1'' (earlier_download (test_downloader (blocked_adapter ''context canceled'')))))
        ''/data/downloads/mock/prod/test.txt'' = Some test_content
   \<and> d_fs (snd (Download (env_ok\<lparr>ctx_after := Some Canceled\<rparr>) ''file-1'' (earlier_download (test_downloader (blocked_adapter ''context canceled'')))))
        ''/data/downloads/mock/prod/test.txt.tmp'' = None
   \<and> snd (DownloadFile partial_adapter (fileInfo_of test_file))
        = Some ''connection reset by peer''
   \<and> fst (Download env_ok ''file-1'' (earlier_download (test_downloader partial_adapter)))
        = Some (WrappedError ''Download failed'' ''connection reset by peer'')
   \<and> d_fs (snd (Download env_ok ''file-1'' (earlier_download (test_downloader partial_adapter))))
        ''/data/downloads/mock/prod/test.txt'' = Some test_content
   \<and> d_fs (snd (Download env_ok ''file-1'' (earlier_download (test_downloader partial_adapter))))
        ''/data/downloads/mock/prod/test.txt.tmp'' = None"
proof -
  have same: "d_db (earlier_download d) = d_db d" "d_registry (earlier_download d) = d_registry d"
    "d_active (earlier_download d) = d_active d" "d_DataDir (earlier_download d) = d_DataDir d"
    for d
    by (simp_all add: earlier_download_def)
  have found: "db_first_file ''file-1'' (d_db (earlier_download d)) = Some test_file"
    if "d_db d = \<lparr>products = [], deliveries = [], files = [test_file], download_entries = []\<rparr>"
    for d
    using that by (simp add: same test_file_found)
  have found1: "db_first_file ''file-1'' (d_db (earlier_download (test_downloader (blocked_adapter ''context canceled'')))) = Some test_file"
    and found2: "db_first_file ''file-1'' (d_db (earlier_download (test_downloader partial_adapter)))
                   = Some test_file"
    by (simp_all add: found test_downloader_fields)
  have reg1: "d_registry (earlier_download (test_downloader (blocked_adapter ''context canceled''))) (File_SourceID test_file)
        = Some (blocked_adapter ''context canceled'')"
    and reg2: "d_registry (earlier_download (test_downloader partial_adapter))
                 (File_SourceID test_file) = Some partial_adapter"
    by (simp_all add: same test_downloader_fields test_file_fields)
  have fails1: "snd (DownloadFile (blocked_adapter ''context canceled'') (fileInfo_of test_file))
        = Some ''context canceled''"
    and fails2: "snd (DownloadFile partial_adapter (fileInfo_of test_file))
        = Some ''connection reset by peer''"
    by (simp_all add: sample_adapter_runs)
  have path: "getDownloadPath (earlier_download (test_downloader a)) test_file
                = ''/data/downloads/mock/prod/test.txt''" for a
    by (simp add: test_file_path test_downloads_path same test_downloader_fields)
  have res1: "fst (Download (env_ok\<lparr>ctx_after := Some Canceled\<rparr>) ''file-1'' (earlier_download (test_downloader (blocked_adapter ''context canceled'')))) = Some (ContextError Canceled)"
    by (simp add: earlier_download_def download_eval)
  have res2: "fst (Download env_ok ''file-1'' (earlier_download (test_downloader partial_adapter)))
        = Some (WrappedError ''Download failed'' ''connection reset by peer'')"
    by (simp add: earlier_download_def download_eval)
  have before: "d_fs (earlier_download d) ''/data/downloads/mock/prod/test.txt'' = Some test_content"
    for d
    by (simp add: earlier_download_def)
  from Download_failure_keeps_final_path[OF found1, of "env_ok\<lparr>ctx_after := Some Canceled\<rparr>"] reg1 fails1
  have one: "d_fs (snd (Download (env_ok\<lparr>ctx_after := Some Canceled\<rparr>) ''file-1'' (earlier_download (test_downloader (blocked_adapter ''context canceled'')))))
        ''/data/downloads/mock/prod/test.txt'' = Some test_content
      \<and> d_fs (snd (Download (env_ok\<lparr>ctx_after := Some Canceled\<rparr>) ''file-1'' (earlier_download (test_downloader (blocked_adapter ''context canceled'')))))
        ''/data/downloads/mock/prod/test.txt.tmp'' = None"
    by (simp add: path before same test_downloader_fields env_ok_def test_file_fields)
  from Download_failure_keeps_final_path[OF found2, of env_ok] reg2 fails2
  have two: "d_fs (snd (Download env_ok ''file-1'' (earlier_download (test_downloader partial_adapter))))
        ''/data/downloads/mock/prod/test.txt'' = Some test_content
      \<and> d_fs (snd (Download env_ok ''file-1'' (earlier_download (test_downloader partial_adapter))))
        ''/data/downloads/mock/prod/test.txt.tmp'' = None"
    by (simp add: path before same test_downloader_fields env_ok_def test_file_fields)
  show ?thesis
    using found1 reg1 fails1 res1 one fails2 res2 two by blast
qed


section \<open>Claims about the event dispatcher\<close>

text \<open>
  Claim C8. When the store answers the query for the enabled webhooks, the webhooks
  \<open>getWebhooksForEvent\<close> selects for an event type are exactly the enabled rows, in table
  order, whose stored subscription decodes to a list that contains the event type or
  \<open>"*"\<close>, and \<open>Emit\<close> starts one delivery of the event for each of them and no other.
  Hence an enabled webhook subscribed to \<open>["*"]\<close> gets a delivery of every event; a webhook
  subscribed to \<open>["download.completed"]\<close> gets one if and only if it is enabled and the
  event is of type \<open>download.completed\<close>; and a disabled webhook never gets one.
\<close>

theorem getWebhooksForEvent_selected:
  "getWebhooksForEvent unmarshal None webhooks t
     = Inr (filter (\<lambda>wh. Webhook_Enabled wh \<and>
                      (case unmarshal (Webhook_Events wh) of
                         None \<Rightarrow> False
                       | Some es \<Rightarrow> t \<in> set es \<or> ''*'' \<in> set es)) webhooks)
   \<and> Emit unmarshal None webhooks event
     = map (\<lambda>wh. (wh, event))
         (filter (\<lambda>wh. Webhook_Enabled wh \<and>
                      (case unmarshal (Webhook_Events wh) of
                         None \<Rightarrow> False
                       | Some es \<Rightarrow> Event_Type event \<in> set es \<or> ''*'' \<in> set es)) webhooks)
   \<and> (\<forall>wh \<in> set webhooks.
         Webhook_Enabled wh \<and> unmarshal (Webhook_Events wh) = Some [''*'']
         \<longrightarrow> (wh, event) \<in> set (Emit unmarshal None webhooks event))
   \<and> (\<forall>wh \<in> set webhooks.
         unmarshal (Webhook_Events wh) = Some [EventDownloadCompleted]
         \<longrightarrow> ((wh, event) \<in> set (Emit unmarshal None webhooks event)
               \<longleftrightarrow> Webhook_Enabled wh \<and> Event_Type event = EventDownloadCompleted))
   \<and> (\<forall>wh ev. \<not> Webhook_Enabled wh
         \<longrightarrow> (wh, ev) \<notin> set (Emit unmarshal find_err webhooks event))"
proof -
  have sel: "getWebhooksForEvent unmarshal None webhooks t
     = Inr (filter (\<lambda>wh. Webhook_Enabled wh \<and>
                      (case unmarshal (Webhook_Events wh) of
                         None \<Rightarrow> False
                       | Some es \<Rightarrow> t \<in> set es \<or> ''*'' \<in> set es)) webhooks)" for t
    unfolding getWebhooksForEvent_def matching_webhooks_filter filter_filter
    by simp
  have emit: "Emit unmarshal None webhooks event
     = map (\<lambda>wh. (wh, event))
         (filter (\<lambda>wh. Webhook_Enabled wh \<and>
                      (case unmarshal (Webhook_Events wh) of
                         None \<Rightarrow> False
                       | Some es \<Rightarrow> Event_Type event \<in> set es \<or> ''*'' \<in> set es)) webhooks)"
    by (simp add: Emit_def sel)
  have star: "EventDownloadCompleted \<noteq> ''*''"
    by (simp add: EventDownloadCompleted_def)
  have disabled: "(wh, ev) \<notin> set (Emit unmarshal find_err webhooks event)"
    if "\<not> Webhook_Enabled wh" for wh ev
  proof (cases find_err)
    case None
    with that show ?thesis by (auto simp: emit)
  next
    case (Some e)
    then show ?thesis by (simp add: Emit_def getWebhooksForEvent_def)
  qed
  show ?thesis
    using star disabled sel[of t] by (auto simp: emit)
qed

text \<open>
  Witness for C8: the three sample webhooks. For a \<open>download.failed\<close> event only the
  enabled wildcard webhook gets a delivery; for a \<open>download.completed\<close> event the webhook
  subscribed to it gets one as well; the disabled one gets none.
\<close>

theorem getWebhooksForEvent_selected_witness:
  "webhook_all \<in> set [webhook_all, webhook_completed, webhook_disabled]
   \<and> Webhook_Enabled webhook_all
   \<and> sample_unmarshal (Webhook_Events webhook_all) = Some [''*'']
   \<and> \<not> Webhook_Enabled webhook_disabled
   \<and> getWebhooksForEvent sample_unmarshal None
       [webhook_all, webhook_completed, webhook_disabled] EventDownloadFailed = Inr [webhook_all]
   \<and> Emit sample_unmarshal None [webhook_all, webhook_completed, webhook_disabled]
       (NewEvent EventDownloadFailed ''s1'')
       = [(webhook_all, NewEvent EventDownloadFailed ''s1'')]
   \<and> Emit sample_unmarshal None [webhook_all, webhook_completed, webhook_disabled]
       (NewEvent EventDownloadCompleted ''s1'')
       = [(webhook_all, NewEvent EventDownloadCompleted ''s1''),
          (webhook_completed, NewEvent EventDownloadCompleted ''s1'')]"
proof -
  have pre: "webhook_all \<in> set [webhook_all, webhook_completed, webhook_disabled]"
    "Webhook_Enabled webhook_all"
    "sample_unmarshal (Webhook_Events webhook_all) = Some [''*'']"
    "\<not> Webhook_Enabled webhook_disabled"
    by (simp_all add: webhook_all_def webhook_disabled_def sample_unmarshal_def)
  have decoded: "sample_unmarshal (Webhook_Events webhook_completed) = Some [''download.completed'']"
    "sample_unmarshal (Webhook_Events webhook_disabled) = Some [''*'']"
    "Webhook_Enabled webhook_completed"
    by (simp_all add: webhook_completed_def webhook_disabled_def sample_unmarshal_def)
  note selected = getWebhooksForEvent_selected[of sample_unmarshal
               "[webhook_all, webhook_completed, webhook_disabled]"]
  from selected[of EventDownloadFailed]
  have failed: "getWebhooksForEvent sample_unmarshal None
       [webhook_all, webhook_completed, webhook_disabled] EventDownloadFailed = Inr [webhook_all]"
    using pre decoded by (simp add: event_names)
  from selected[of _ "NewEvent EventDownloadFailed ''s1''"]
  have emit_failed: "Emit sample_unmarshal None [webhook_all, webhook_completed, webhook_disabled]
       (NewEvent EventDownloadFailed ''s1'')
       = [(webhook_all, NewEvent EventDownloadFailed ''s1'')]"
    using pre decoded by (simp add: event_names NewEvent_def)
  from selected[of _ "NewEvent EventDownloadCompleted ''s1''"]
  have emit_completed: "Emit sample_unmarshal None [webhook_all, webhook_completed, webhook_disabled]
       (NewEvent EventDownloadCompleted ''s1'')
       = [(webhook_all, NewEvent EventDownloadCompleted ''s1''),
          (webhook_completed, NewEvent EventDownloadCompleted ''s1'')]"
    using pre decoded by (simp add: event_names NewEvent_def)
  show ?thesis
    using pre failed emit_failed emit_completed by blast
qed

section \<open>Properties of the sync scheduler\<close>

lemma db_count_files_pos:
  "db_count_files fileID db > 0 \<longleftrightarrow> fileID \<in> set (map File_ID (files db))"
  by (auto simp: db_count_files_def filter_empty_conv)

lemma ensureDelivery_frame:
  "files (s_db (ensureDelivery deliveryID productID info s)) = files (s_db s)"
  "products (s_db (ensureDelivery deliveryID productID info s)) = products (s_db s)"
  "s_hooks (ensureDelivery deliveryID productID info s) = s_hooks s"
  "s_started (ensureDelivery deliveryID productID info s) = s_started s"
  "s_registry (ensureDelivery deliveryID productID info s) = s_registry s"
  "s_cron (ensureDelivery deliveryID productID info s) = s_cron s"
  "s_entryIDs (ensureDelivery deliveryID productID info s) = s_entryIDs s"
  by (simp_all add: ensureDelivery_def db_create_delivery_def)

lemma new_file_id:
  "File_ID (new_file product productID delivery fileInfo)
     = buildFileID productID (DeliveryInfo_ExternalID delivery) (FileInfo_ExternalID fileInfo)"
  by (simp add: new_file_def)

lemma file_available_event_type:
  "Event_Type (file_available_event product productID delivery fileInfo) = EventFileAvailable"
  by (simp add: file_available_event_def WithFile_def WithDelivery_def WithProduct_def NewEvent_def)

lemma first_occurrences_distinct: "distinct xs \<Longrightarrow> first_occurrences xs = xs"
proof (induction xs)
  case Nil
  then show ?case by simp
next
  case (Cons x xs)
  then have "filter (\<lambda>y. y \<noteq> x) xs = xs"
    by (auto simp: filter_id_conv)
  with Cons show ?case by simp
qed

lemma first_occurrences_set: "set (first_occurrences xs) = set xs"
  by (induction xs rule: first_occurrences.induct) auto

lemma first_occurrences_is_distinct: "distinct (first_occurrences xs)"
  by (induction xs rule: first_occurrences.induct) (auto simp: first_occurrences_set)

lemma first_occurrences_append:
  "first_occurrences (xs @ ys)
     = first_occurrences xs @ first_occurrences (filter (\<lambda>y. y \<notin> set xs) ys)"
proof (induction xs arbitrary: ys rule: first_occurrences.induct)
  case 1
  then show ?case by simp
next
  case (2 x xs)
  have "filter (\<lambda>y. y \<notin> set (filter (\<lambda>y. y \<noteq> x) xs)) (filter (\<lambda>y. y \<noteq> x) ys)
          = filter (\<lambda>y. y \<notin> set (x # xs)) ys"
    by (induction ys) auto
  with 2[of "filter (\<lambda>y. y \<noteq> x) ys"] show ?case by simp
qed


text \<open>The effect of the inner loop, in terms of the ids it meets.\<close>

lemma sync_files_effect:
  "\<exists>new evs.
      files (s_db (sync_files product productID delivery fileInfos s)) = files (s_db s) @ new
    \<and> map File_ID new
        = first_occurrences (filter (\<lambda>i. i \<notin> known_ids s)
            (map (\<lambda>f. buildFileID productID (DeliveryInfo_ExternalID delivery)
                          (FileInfo_ExternalID f)) fileInfos))
    \<and> s_hooks (sync_files product productID delivery fileInfos s) = s_hooks s @ evs
    \<and> map Event_Type evs = replicate (length new) EventFileAvailable
    \<and> s_started (sync_files product productID delivery fileInfos s)
        = s_started s @ (if Product_AutoDownload product
                         then map (\<lambda>f. DownloadTask (File_ID f)) new else [])
    \<and> products (s_db (sync_files product productID delivery fileInfos s)) = products (s_db s)"
proof (induction fileInfos arbitrary: s)
  case Nil
  then show ?case by simp
next
  case (Cons fileInfo rest)
  let ?fid = "\<lambda>f. buildFileID productID (DeliveryInfo_ExternalID delivery) (FileInfo_ExternalID f)"
  show ?case
  proof (cases "?fid fileInfo \<in> known_ids s")
    case True
    then have step: "sync_files product productID delivery (fileInfo # rest) s
                = sync_files product productID delivery rest s"
      by (simp add: db_count_files_pos known_ids_def)
    from Cons.IH[of s] True show ?thesis
      unfolding step by simp
  next
    case False
    define s3 where "s3 =
      (let s2 = s_Emit (file_available_event product productID delivery fileInfo)
                  ((ensureDelivery (buildDeliveryID productID (DeliveryInfo_ExternalID delivery))
                      productID delivery s)
                   \<lparr>s_db := (s_db (ensureDelivery (buildDeliveryID productID (DeliveryInfo_ExternalID delivery))
                      productID delivery s))
                      \<lparr>files := files (s_db s) @ [new_file product productID delivery fileInfo]\<rparr>\<rparr>)
       in if Product_AutoDownload product
          then s2\<lparr>s_started := s_started s2 @ [DownloadTask (?fid fileInfo)]\<rparr> else s2)"
    from False have step: "sync_files product productID delivery (fileInfo # rest) s
                = sync_files product productID delivery rest s3"
      by (simp add: db_count_files_pos known_ids_def db_create_file_def ensureDelivery_frame
            new_file_id Let_def s3_def) (simp add: new_file_def)
    have s3: "files (s_db s3) = files (s_db s) @ [new_file product productID delivery fileInfo]"
      "s_hooks s3 = s_hooks s @ [file_available_event product productID delivery fileInfo]"
      "s_started s3 = s_started s @ (if Product_AutoDownload product
                                      then [DownloadTask (?fid fileInfo)] else [])"
      "products (s_db s3) = products (s_db s)"
      by (simp_all add: s3_def Let_def s_Emit_def ensureDelivery_frame)
    have known3: "known_ids s3 = insert (?fid fileInfo) (known_ids s)"
      by (simp add: known_ids_def s3 new_file_id)
    have flt: "filter (\<lambda>i. i \<notin> known_ids s3) (map ?fid rest)
                 = filter (\<lambda>y. y \<noteq> ?fid fileInfo)
                     (filter (\<lambda>i. i \<notin> known_ids s) (map ?fid rest))"
      unfolding known3 filter_filter by (rule filter_cong) auto
    from Cons.IH[of s3]
    obtain new evs where ih:
      "files (s_db (sync_files product productID delivery rest s3)) = files (s_db s3) @ new"
      "map File_ID new = first_occurrences (filter (\<lambda>i. i \<notin> known_ids s3) (map ?fid rest))"
      "s_hooks (sync_files product productID delivery rest s3) = s_hooks s3 @ evs"
      "map Event_Type evs = replicate (length new) EventFileAvailable"
      "s_started (sync_files product productID delivery rest s3)
             = s_started s3 @ (if Product_AutoDownload product
                              then map (\<lambda>f. DownloadTask (File_ID f)) new else [])"
      "products (s_db (sync_files product productID delivery rest s3)) = products (s_db s3)"
      by blast
    show ?thesis
      unfolding step
      apply (rule exI[of _ "new_file product productID delivery fileInfo # new"])
      apply (rule exI[of _ "file_available_event product productID delivery fileInfo # evs"])
      using ih False by (simp add: s3 flt new_file_id file_available_event_type)
  qed
qed

lemma sync_deliveries_effect:
  "\<exists>new evs.
      files (s_db (sync_deliveries adapter product productID deliveryInfos s))
        = files (s_db s) @ new
    \<and> map File_ID new
        = first_occurrences (filter (\<lambda>i. i \<notin> known_ids s)
            (discovered_ids adapter product productID deliveryInfos))
    \<and> s_hooks (sync_deliveries adapter product productID deliveryInfos s) = s_hooks s @ evs
    \<and> map Event_Type evs = replicate (length new) EventFileAvailable
    \<and> s_started (sync_deliveries adapter product productID deliveryInfos s)
        = s_started s @ (if Product_AutoDownload product
                         then map (\<lambda>f. DownloadTask (File_ID f)) new else [])
    \<and> products (s_db (sync_deliveries adapter product productID deliveryInfos s))
        = products (s_db s)"
proof (induction deliveryInfos arbitrary: s)
  case Nil
  then show ?case by (simp add: discovered_ids_def)
next
  case (Cons delivery rest)
  show ?case
  proof (cases "FetchFiles adapter (Product_ExternalID product) (DeliveryInfo_ExternalID delivery)")
    case (Inl err)
    then have ids: "discovered_ids adapter product productID (delivery # rest)
                      = discovered_ids adapter product productID rest"
      by (simp add: discovered_ids_def)
    from Cons.IH[of s] Inl show ?thesis
      unfolding ids by simp
  next
    case (Inr fileInfos)
    let ?here = "map (\<lambda>f. buildFileID productID (DeliveryInfo_ExternalID delivery)
                               (FileInfo_ExternalID f)) fileInfos"
    let ?later = "discovered_ids adapter product productID rest"
    let ?s1 = "sync_files product productID delivery fileInfos s"
    from Inr have ids: "discovered_ids adapter product productID (delivery # rest) = ?here @ ?later"
      by (simp add: discovered_ids_def)
    from sync_files_effect[of product productID delivery fileInfos s]
    obtain new1 evs1 where in1:
      "files (s_db ?s1) = files (s_db s) @ new1"
      "map File_ID new1 = first_occurrences (filter (\<lambda>i. i \<notin> known_ids s) ?here)"
      "s_hooks ?s1 = s_hooks s @ evs1"
      "map Event_Type evs1 = replicate (length new1) EventFileAvailable"
      "s_started ?s1 = s_started s @ (if Product_AutoDownload product
                              then map (\<lambda>f. DownloadTask (File_ID f)) new1 else [])"
      "products (s_db ?s1) = products (s_db s)"
      by blast
    from Cons.IH[of ?s1]
    obtain new2 evs2 where in2:
      "files (s_db (sync_deliveries adapter product productID rest ?s1)) = files (s_db ?s1) @ new2"
      "map File_ID new2 = first_occurrences (filter (\<lambda>i. i \<notin> known_ids ?s1) ?later)"
      "s_hooks (sync_deliveries adapter product productID rest ?s1) = s_hooks ?s1 @ evs2"
      "map Event_Type evs2 = replicate (length new2) EventFileAvailable"
      "s_started (sync_deliveries adapter product productID rest ?s1)
         = s_started ?s1 @ (if Product_AutoDownload product
                              then map (\<lambda>f. DownloadTask (File_ID f)) new2 else [])"
      "products (s_db (sync_deliveries adapter product productID rest ?s1)) = products (s_db ?s1)"
      by blast
    have known1: "known_ids ?s1 = known_ids s \<union> set (filter (\<lambda>i. i \<notin> known_ids s) ?here)"
      unfolding known_ids_def in1(1) map_append set_append in1(2) first_occurrences_set by simp
    have flt: "filter (\<lambda>i. i \<notin> known_ids ?s1) ?later
                 = filter (\<lambda>y. y \<notin> set (filter (\<lambda>i. i \<notin> known_ids s) ?here))
                     (filter (\<lambda>i. i \<notin> known_ids s) ?later)"
      unfolding known1 filter_filter by (rule filter_cong) auto
    have step: "sync_deliveries adapter product productID (delivery # rest) s
                  = sync_deliveries adapter product productID rest ?s1"
      using Inr by simp
    show ?thesis
      unfolding step ids
      apply (rule exI[of _ "new1 @ new2"])
      apply (rule exI[of _ "evs1 @ evs2"])
      using in1 in2 by (simp add: flt replicate_add first_occurrences_append)
  qed
qed

lemma length_filter_known:
  "length (filter (\<lambda>i. i \<notin> K) ids) = length ids - length (filter (\<lambda>i. i \<in> K) ids)"
  using sum_length_filter_compl[of "\<lambda>i. i \<in> K" ids] by simp

lemma db_save_product_files: "files (db_save_product p db) = files db"
  by (simp add: db_save_product_def)

lemma sync_completed_not_available: "EventSyncCompleted \<noteq> EventFileAvailable"
  by (simp add: event_names)

subsection \<open>Evaluation of the scheduler samples\<close>

lemma sample_scheduler_fields:
  "s_db (sample_scheduler a known)
     = \<lparr>products = [sample_product], deliveries = [], files = known, download_entries = []\<rparr>"
  "s_registry (sample_scheduler a known) = [''mock'' \<mapsto> a]"
  "s_hooks (sample_scheduler a known) = []"
  "s_cron (sample_scheduler a known) = cron_New"
  "s_entryIDs (sample_scheduler a known) = Map.empty"
  "s_started (sample_scheduler a known) = []"
  by (simp_all add: sample_scheduler_def)

lemma sample_product_found:
  "db_first_product ''prod''
     \<lparr>products = [sample_product], deliveries = ds, files = fs, download_entries = es\<rparr>
   = Some sample_product"
  by (simp add: db_first_product_def sample_product_def)

lemma sample_product_fields:
  "Product_ID sample_product = ''prod''"
  "Product_SourceID sample_product = ''mock''"
  "Product_ExternalID sample_product = ''P''"
  "Product_Name sample_product = ''Product''"
  "Product_AutoDownload sample_product = True"
  by (simp_all add: sample_product_def)

lemma listing_adapter_fetch:
  "FetchDeliveries (listing_adapter listing) p = Inr (map (\<lambda>row. sample_delivery (fst row)) listing)"
  "FetchFiles (listing_adapter listing) p d =
     (case map_of listing d of
           None \<Rightarrow> Inl ''Delivery not found''
         | Some (Inl err) \<Rightarrow> Inl err
         | Some (Inr exts) \<Rightarrow> Inr (map sample_fileInfo exts))"
  "FetchDeliveries (failing_adapter err) p = Inl err"
  by (simp_all add: listing_adapter_def failing_adapter_def)

lemmas sample_listings =
  three_files_adapter_def one_known_scheduler_def colliding_adapter_def colliding_scheduler_def

lemmas sync_eval =
  syncProduct_def sample_scheduler_fields sample_product_found sample_product_fields
  listing_adapter_fetch sample_delivery_def sample_fileInfo_def Let_def
  db_count_files_def db_count_deliveries_def db_create_file_def db_create_delivery_def
  db_save_product_def ensureDelivery_def new_file_def file_available_event_def
  buildFileID_def buildDeliveryID_def s_Emit_def emitSyncFailed_def
  NewEvent_def WithFile_def WithDelivery_def WithProduct_def WithError_def
  available_events_def known_ids_def discovered_ids_def event_names

section \<open>Claims about the sync scheduler\<close>

text \<open>
  Claim C6, as amended. For every sync run that gets the deliveries of its product from the
  adapter: the rows already stored stay as they are; exactly one File row is appended for
  each derived id (product id, delivery external id and file external id, joined by colons)
  among the listed files that is not yet stored, in the order of first listing, and none for
  an id that is stored; one \<open>file.available\<close> event is emitted per appended row; a download
  is started for each appended row when the product is set to automatic download, and for
  no other file; and stored ids that were pairwise distinct stay so. When the derived ids of
  the N listed files are pairwise distinct and K of them are stored already, exactly N - K
  rows are appended and exactly N - K \<open>file.available\<close> events are emitted.
\<close>

theorem syncProduct_new_files:
  assumes "db_first_product productID (s_db s) = Some product"
      and "s_registry s (Product_SourceID product) = Some adapter"
      and "FetchDeliveries adapter (Product_ExternalID product) = Inr deliveryInfos"
  shows "\<exists>new.
           files (s_db (syncProduct now productID s)) = files (s_db s) @ new
         \<and> map File_ID new
             = first_occurrences (filter (\<lambda>i. i \<notin> known_ids s)
                 (discovered_ids adapter product productID deliveryInfos))
         \<and> length (available_events (syncProduct now productID s))
             = length (available_events s) + length new
         \<and> s_started (syncProduct now productID s)
             = s_started s @ (if Product_AutoDownload product
                              then map (\<lambda>f. DownloadTask (File_ID f)) new else [])
         \<and> (distinct (discovered_ids adapter product productID deliveryInfos)
              \<longrightarrow> length new
                  = length (discovered_ids adapter product productID deliveryInfos)
                    - length (filter (\<lambda>i. i \<in> known_ids s)
                                (discovered_ids adapter product productID deliveryInfos)))
         \<and> (distinct (map File_ID (files (s_db s)))
              \<longrightarrow> distinct (map File_ID (files (s_db (syncProduct now productID s)))))"
proof -
  let ?s1 = "sync_deliveries adapter product productID deliveryInfos s"
  let ?ids = "discovered_ids adapter product productID deliveryInfos"
  from sync_deliveries_effect[of adapter product productID deliveryInfos s]
  obtain new evs where eff:
    "files (s_db ?s1) = files (s_db s) @ new"
    "map File_ID new = first_occurrences (filter (\<lambda>i. i \<notin> known_ids s) ?ids)"
    "s_hooks ?s1 = s_hooks s @ evs"
    "map Event_Type evs = replicate (length new) EventFileAvailable"
    "s_started ?s1 = s_started s @ (if Product_AutoDownload product
                              then map (\<lambda>f. DownloadTask (File_ID f)) new else [])"
    by blast
  have run: "syncProduct now productID s =
     s_Emit (WithProduct productID (Product_Name product)
               (NewEvent EventSyncCompleted (Product_SourceID product)))
       (?s1\<lparr>s_db := db_save_product (product\<lparr>Product_LastCheckedAt := Some now\<rparr>) (s_db ?s1)\<rparr>)"
    using assms(1-3) by (simp add: syncProduct_def Let_def)
  have len: "length new = length ?ids - length (filter (\<lambda>i. i \<in> known_ids s) ?ids)"
    if "distinct ?ids"
  proof -
    from that have "first_occurrences (filter (\<lambda>i. i \<notin> known_ids s) ?ids)
                      = filter (\<lambda>i. i \<notin> known_ids s) ?ids"
      by (simp add: first_occurrences_distinct)
    with eff(2) have "length new = length (filter (\<lambda>i. i \<notin> known_ids s) ?ids)"
      by (metis length_map)
    then show ?thesis
      by (simp add: length_filter_known)
  qed
  have all_av: "filter (\<lambda>e. Event_Type e = EventFileAvailable) evs = evs"
    using eff(4) by (metis (mono_tags, lifting) filter_True in_set_replicate set_map imageI)
  have avail: "length (available_events (syncProduct now productID s))
                 = length (available_events s) + length new"
    using eff(4) sync_completed_not_available
    by (simp add: run available_events_def s_Emit_def eff(3) all_av WithProduct_def NewEvent_def)
       (metis length_map length_replicate)
  have dist: "distinct (map File_ID (files (s_db (syncProduct now productID s))))"
    if "distinct (map File_ID (files (s_db s)))"
    using that eff(2) first_occurrences_is_distinct[of "filter (\<lambda>i. i \<notin> known_ids s) ?ids"]
    by (auto simp: run s_Emit_def db_save_product_files eff(1) known_ids_def
          first_occurrences_set)
  show ?thesis
    apply (rule exI[of _ new])
    using eff(2) len avail dist
    by (simp add: run s_Emit_def db_save_product_files eff(1) eff(5))
qed

text \<open>
  Witness for C6: the adapter lists three files of one delivery, the second of which is
  stored already; two rows are appended, two events emitted, two downloads started.
\<close>

theorem syncProduct_new_files_witness:
  "db_first_product ''prod'' (s_db one_known_scheduler) = Some sample_product
   \<and> s_registry one_known_scheduler (Product_SourceID sample_product) = Some three_files_adapter
   \<and> FetchDeliveries three_files_adapter (Product_ExternalID sample_product) = Inr [sample_delivery ''latest'']
   \<and> discovered_ids three_files_adapter sample_product ''prod'' [sample_delivery ''latest'']
        = [''prod:latest:f1'', ''prod:latest:f2'', ''prod:latest:f3'']
   \<and> map File_ID (files (s_db one_known_scheduler)) = [''prod:latest:f2'']
   \<and> map File_ID (files (s_db (syncProduct 7 ''prod'' one_known_scheduler)))
        = [''prod:latest:f2'', ''prod:latest:f1'', ''prod:latest:f3'']
   \<and> length (available_events (syncProduct 7 ''prod'' one_known_scheduler)) = 2
   \<and> s_started (syncProduct 7 ''prod'' one_known_scheduler)
        = [DownloadTask ''prod:latest:f1'', DownloadTask ''prod:latest:f3'']
   \<and> (\<exists>new. files (s_db (syncProduct 7 ''prod'' one_known_scheduler)) = files (s_db one_known_scheduler) @ new
          \<and> length new = 3 - 1)"
proof -
  have pre: "db_first_product ''prod'' (s_db one_known_scheduler) = Some sample_product"
    "s_registry one_known_scheduler (Product_SourceID sample_product) = Some three_files_adapter"
    "FetchDeliveries three_files_adapter (Product_ExternalID sample_product) = Inr [sample_delivery ''latest'']"
    by (simp_all add: sample_listings sample_scheduler_fields sample_product_found
          sample_product_fields listing_adapter_fetch)
  have ids: "discovered_ids three_files_adapter sample_product ''prod'' [sample_delivery ''latest'']
        = [''prod:latest:f1'', ''prod:latest:f2'', ''prod:latest:f3'']"
    by (simp add: sample_listings sync_eval)
  have dist: "distinct (discovered_ids three_files_adapter sample_product ''prod'' [sample_delivery ''latest''])"
    unfolding ids by simp
  have known: "map File_ID (files (s_db one_known_scheduler)) = [''prod:latest:f2'']"
    by (simp add: sample_listings sync_eval)
  have K: "length (filter (\<lambda>i. i \<in> known_ids one_known_scheduler)
             [''prod:latest:f1'', ''prod:latest:f2'', ''prod:latest:f3'']) = 1"
    unfolding known_ids_def known by simp
  have rows: "map File_ID (files (s_db (syncProduct 7 ''prod'' one_known_scheduler)))
        = [''prod:latest:f2'', ''prod:latest:f1'', ''prod:latest:f3'']"
    by (simp add: sample_listings sync_eval)
  have evs: "length (available_events (syncProduct 7 ''prod'' one_known_scheduler)) = 2"
    by (simp add: sample_listings sync_eval)
  have started: "s_started (syncProduct 7 ''prod'' one_known_scheduler)
        = [DownloadTask ''prod:latest:f1'', DownloadTask ''prod:latest:f3'']"
    by (simp add: sample_listings sync_eval)
  from syncProduct_new_files[OF pre, of 7] dist
  obtain new where "files (s_db (syncProduct 7 ''prod'' one_known_scheduler)) = files (s_db one_known_scheduler) @ new"
    "length new = 3 - 1"
    unfolding ids K by auto
  then show ?thesis
    using pre ids known rows evs started by blast
qed

text \<open>
  Counterexample to C6 as stated: the adapter lists two different files, \<open>b:c\<close> of delivery
  \<open>a\<close> and \<open>c\<close> of delivery \<open>a:b\<close>, and none is stored. Both get the id
  \<open>prod:a:b:c\<close>, so of N = 2 files with K = 0 known, one row is appended and one
  event emitted.
\<close>

theorem syncProduct_colliding_ids_counterexample:
  "FetchDeliveries colliding_adapter (Product_ExternalID sample_product)
     = Inr [sample_delivery ''a'', sample_delivery ''a:b'']
   \<and> FetchFiles colliding_adapter (Product_ExternalID sample_product) ''a'' = Inr [sample_fileInfo ''b:c'']
   \<and> FetchFiles colliding_adapter (Product_ExternalID sample_product) ''a:b'' = Inr [sample_fileInfo ''c'']
   \<and> sample_fileInfo ''b:c'' \<noteq> sample_fileInfo ''c''
   \<and> files (s_db colliding_scheduler) = []
   \<and> discovered_ids colliding_adapter sample_product ''prod'' [sample_delivery ''a'', sample_delivery ''a:b'']
        = [''prod:a:b:c'', ''prod:a:b:c'']
   \<and> map File_ID (files (s_db (syncProduct 7 ''prod'' colliding_scheduler))) = [''prod:a:b:c'']
   \<and> length (files (s_db (syncProduct 7 ''prod'' colliding_scheduler))) \<noteq> 2 - 0
   \<and> length (available_events (syncProduct 7 ''prod'' colliding_scheduler)) \<noteq> 2 - 0"
  by (simp add: sample_listings sync_eval)



text \<open>
  Claim C10. For every product id, \<open>SyncNow\<close> returns \<open>nil\<close>; all it does is start the
  sync as a task of its own, so the store and the emitted events are as before when it
  returns, whatever the sync will meet. For an id with no stored product, the task, when
  it runs, leaves the scheduler as it is: nothing is written, no event is emitted.
\<close>

theorem SyncNow_returns_nil:
  "fst (SyncNow productID s) = None
   \<and> snd (SyncNow productID s) = s\<lparr>s_started := s_started s @ [SyncTask productID]\<rparr>
   \<and> s_db (snd (SyncNow productID s)) = s_db s
   \<and> s_hooks (snd (SyncNow productID s)) = s_hooks s
   \<and> (db_first_product productID (s_db s) = None \<longrightarrow> syncProduct now productID s = s)"
  by (simp add: SyncNow_def syncProduct_def)

text \<open>
  Witness for C10: a product id that is not stored.
\<close>

theorem SyncNow_returns_nil_witness:
  "db_first_product ''nonexistent-product'' (s_db (sample_scheduler writing_adapter [])) = None
   \<and> fst (SyncNow ''nonexistent-product'' (sample_scheduler writing_adapter [])) = None
   \<and> s_started (snd (SyncNow ''nonexistent-product'' (sample_scheduler writing_adapter [])))
        = [SyncTask ''nonexistent-product'']
   \<and> syncProduct 7 ''nonexistent-product'' (sample_scheduler writing_adapter [])
        = sample_scheduler writing_adapter []"
proof -
  have missing: "db_first_product ''nonexistent-product''
                   (s_db (sample_scheduler writing_adapter [])) = None"
    by (simp add: db_first_product_def sample_scheduler_fields sample_product_def)
  from SyncNow_returns_nil[of "''nonexistent-product''" "sample_scheduler writing_adapter []" 7]
  show ?thesis
    using missing by (simp add: sample_scheduler_fields)
qed

subsection \<open>The registry invariant\<close>

lemma registry_consistent_at_most_one:
  assumes "registry_consistent s"
  shows "length (registrations p s) \<le> 1"
proof -
  have "length (filter (\<lambda>e. entry_product e = p) es) \<le> 1"
    if "list_all (\<lambda>e. ids (entry_product e) = Some (entry_ID e)) es"
       "distinct (map entry_ID es)" for es :: "cron_entry list" and ids
    using that
  proof (induction es)
    case Nil
    then show ?case by simp
  next
    case (Cons e es)
    show ?case
    proof (cases "entry_product e = p")
      case True
      have "filter (\<lambda>e. entry_product e = p) es = []"
      proof (rule ccontr)
        assume "filter (\<lambda>e. entry_product e = p) es \<noteq> []"
        then obtain e' where e': "e' \<in> set es" "entry_product e' = p"
          by (metis (mono_tags, lifting) filter_empty_conv)
        with Cons.prems(1) True have "entry_ID e' = entry_ID e"
          by (auto simp: list_all_iff)
        with Cons.prems(2) e'(1) show False by (auto simp: image_iff)
      qed
      with True show ?thesis by simp
    next
      case False
      with Cons show ?thesis by simp
    qed
  qed
  from this[of "s_entryIDs s" "cron_entries (s_cron s)"] assms
  show ?thesis
    by (auto simp: registry_consistent_def registrations_def list_all_iff)
qed

lemma unschedule_consistent:
  assumes "registry_consistent s" and "s_entryIDs s p = Some entryID"
  shows "registry_consistent
           (s\<lparr>s_cron := cron_Remove entryID (s_cron s), s_entryIDs := (s_entryIDs s)(p := None)\<rparr>)"
    and "registrations p
           (s\<lparr>s_cron := cron_Remove entryID (s_cron s), s_entryIDs := (s_entryIDs s)(p := None)\<rparr>)
         = []"
  using assms
  by (auto simp: registry_consistent_def registrations_def cron_Remove_def list_all_iff
        distinct_map_filter filter_empty_conv)

lemma ScheduleProduct_effect:
  assumes "registry_consistent s"
  shows "registry_consistent (snd (ScheduleProduct parse product s))"
    and "Product_CheckWindowStart product = [] \<Longrightarrow>
           fst (ScheduleProduct parse product s) = None
         \<and> registrations (Product_ID product) (snd (ScheduleProduct parse product s)) = []"
    and "Product_CheckWindowStart product \<noteq> [] \<Longrightarrow>
         parse (Product_CheckWindowStart product) = None \<Longrightarrow>
           fst (ScheduleProduct parse product s) = None
         \<and> map entry_spec (registrations (Product_ID product)
                             (snd (ScheduleProduct parse product s)))
             = [Product_CheckWindowStart product]"
    and "Product_CheckWindowStart product \<noteq> [] \<Longrightarrow>
         parse (Product_CheckWindowStart product) = Some err \<Longrightarrow>
           fst (ScheduleProduct parse product s) = Some err
         \<and> registrations (Product_ID product) (snd (ScheduleProduct parse product s)) = []"
proof -
  define s1 where "s1 = (case s_entryIDs s (Product_ID product) of
                  Some entryID \<Rightarrow>
                    s\<lparr>s_cron := cron_Remove entryID (s_cron s),
                      s_entryIDs := (s_entryIDs s)(Product_ID product := None)\<rparr>
                | None \<Rightarrow> s)"
  have s1: "registry_consistent s1" "registrations (Product_ID product) s1 = []"
    "s_entryIDs s1 (Product_ID product) = None"
    using assms unschedule_consistent[OF assms, of "Product_ID product"]
    by (auto simp: s1_def registry_consistent_def registrations_def list_all_iff filter_empty_conv
          split: option.splits)
  have run: "ScheduleProduct parse product s =
      (if Product_CheckWindowStart product = [] then (None, s1)
         else
           (case cron_AddFunc parse (Product_CheckWindowStart product) (Product_ID product)
                   (s_cron s1) of
              Inl err \<Rightarrow> (Some err, s1)
            | Inr (entryID, c) \<Rightarrow>
                (None, s1\<lparr>s_cron := c,
                          s_entryIDs := (s_entryIDs s1)(Product_ID product \<mapsto> entryID)\<rparr>)))"
    unfolding ScheduleProduct_def Let_def s1_def[symmetric] by (rule refl)
  have added: "registry_consistent
          (s1\<lparr>s_cron := (s_cron s1)\<lparr>cron_entries := cron_entries (s_cron s1) @
                        [\<lparr>entry_ID = Suc (cron_nextID (s_cron s1)), entry_spec = spec,
                          entry_product = Product_ID product\<rparr>],
                     cron_nextID := Suc (cron_nextID (s_cron s1))\<rparr>,
               s_entryIDs := (s_entryIDs s1)(Product_ID product \<mapsto> Suc (cron_nextID (s_cron s1)))\<rparr>)"
    for spec
    using s1 by (fastforce simp: registry_consistent_def list_all_iff)
  show "registry_consistent (snd (ScheduleProduct parse product s))"
    using s1(1) added
    by (auto simp: run cron_AddFunc_def Let_def split: option.splits)
  show "Product_CheckWindowStart product = [] \<Longrightarrow>
           fst (ScheduleProduct parse product s) = None
         \<and> registrations (Product_ID product) (snd (ScheduleProduct parse product s)) = []"
    using s1(2) by (simp add: run)
  show "Product_CheckWindowStart product \<noteq> [] \<Longrightarrow>
         parse (Product_CheckWindowStart product) = None \<Longrightarrow>
           fst (ScheduleProduct parse product s) = None
         \<and> map entry_spec (registrations (Product_ID product)
                             (snd (ScheduleProduct parse product s)))
             = [Product_CheckWindowStart product]"
    using s1(2) by (simp add: run cron_AddFunc_def Let_def registrations_def)
  show "Product_CheckWindowStart product \<noteq> [] \<Longrightarrow>
         parse (Product_CheckWindowStart product) = Some err \<Longrightarrow>
           fst (ScheduleProduct parse product s) = Some err
         \<and> registrations (Product_ID product) (snd (ScheduleProduct parse product s)) = []"
    using s1(2) by (simp add: run cron_AddFunc_def)
qed

lemma loadSchedules_consistent:
  "registry_consistent s \<Longrightarrow> registry_consistent (loadSchedules parse s)"
proof -
  have "registry_consistent (fold (\<lambda>product s1. snd (ScheduleProduct parse product s1)) ps s)"
    if "registry_consistent s" for ps s
    using that by (induction ps arbitrary: s) (simp_all add: ScheduleProduct_effect(1))
  then show "registry_consistent s \<Longrightarrow> registry_consistent (loadSchedules parse s)"
    by (simp add: loadSchedules_def)
qed

lemma scheduler_New_consistent:
  "registry_consistent (scheduler_New parse db registry hooks)"
  unfolding scheduler_New_def
  by (rule loadSchedules_consistent) (simp add: registry_consistent_def cron_New_def)

lemma UnscheduleProduct_consistent:
  "registry_consistent s \<Longrightarrow> registry_consistent (UnscheduleProduct p s)"
  using unschedule_consistent(1)[of s p]
  by (auto simp: UnscheduleProduct_def split: option.splits)

text \<open>
  What \<open>ScheduleProduct\<close> does in a state that satisfies the registry invariant (the state
  \<open>New\<close> builds does, and \<open>ScheduleProduct\<close> and \<open>UnscheduleProduct\<close> keep it): it keeps
  the invariant and leaves at most one registration for every product id. For the product of
  the call: with an empty schedule expression it returns \<open>nil\<close> and leaves no registration;
  with a non-empty expression that the cron parser accepts it returns \<open>nil\<close> and leaves
  exactly one registration, carrying that expression, so a second call with another
  accepted expression leaves exactly one registration carrying the latest expression; with
  an expression the parser rejects it returns the parse error, the earlier registration
  having been removed before the parser ran.
\<close>

lemma ScheduleProduct_registrations:
  assumes "registry_consistent s"
  shows "registry_consistent (snd (ScheduleProduct parse product s))
       \<and> (\<forall>p. length (registrations p (snd (ScheduleProduct parse product s))) \<le> 1)
       \<and> (Product_CheckWindowStart product = []
            \<longrightarrow> fst (ScheduleProduct parse product s) = None
              \<and> registrations (Product_ID product) (snd (ScheduleProduct parse product s)) = [])
       \<and> (Product_CheckWindowStart product \<noteq> []
              \<and> parse (Product_CheckWindowStart product) = None
            \<longrightarrow> fst (ScheduleProduct parse product s) = None
              \<and> map entry_spec (registrations (Product_ID product)
                                  (snd (ScheduleProduct parse product s)))
                  = [Product_CheckWindowStart product])
       \<and> (Product_CheckWindowStart product \<noteq> []
              \<and> parse (Product_CheckWindowStart product) = Some err
            \<longrightarrow> fst (ScheduleProduct parse product s) = Some err
              \<and> registrations (Product_ID product) (snd (ScheduleProduct parse product s)) = [])
       \<and> (Product_ID product2 = Product_ID product
              \<and> Product_CheckWindowStart product2 \<noteq> []
              \<and> parse (Product_CheckWindowStart product2) = None
            \<longrightarrow> map entry_spec
                  (registrations (Product_ID product)
                     (snd (ScheduleProduct parse product2
                             (snd (ScheduleProduct parse product s)))))
                = [Product_CheckWindowStart product2])"
proof -
  have inv1: "registry_consistent (snd (ScheduleProduct parse product s))"
    by (rule ScheduleProduct_effect(1)[OF assms])
  have most: "\<forall>p. length (registrations p (snd (ScheduleProduct parse product s))) \<le> 1"
    using registry_consistent_at_most_one[OF inv1] by blast
  have twice: "map entry_spec
                  (registrations (Product_ID product)
                     (snd (ScheduleProduct parse product2
                             (snd (ScheduleProduct parse product s)))))
                = [Product_CheckWindowStart product2]"
    if "Product_ID product2 = Product_ID product" "Product_CheckWindowStart product2 \<noteq> []"
       "parse (Product_CheckWindowStart product2) = None"
    using ScheduleProduct_effect(3)[of "snd (ScheduleProduct parse product s)" product2 parse,
            OF inv1 that(2,3)] that(1) by simp
  show ?thesis
    using inv1 most twice ScheduleProduct_effect(2-4)[OF assms, of product parse]
    by blast
qed

text \<open>
  The product of the tests is scheduled at \<open>0 6 * * *\<close> and then at \<open>0 12 * * *\<close> on a
  scheduler with an empty registry; one entry is left, the second one.
\<close>

lemma ScheduleProduct_twice_accepted:
  "registry_consistent (sample_scheduler writing_adapter [])
   \<and> sample_parse ''0 6 * * *'' = None \<and> sample_parse ''0 12 * * *'' = None
   \<and> fst (ScheduleProduct sample_parse sample_product (sample_scheduler writing_adapter [])) = None
   \<and> cron_entries (s_cron (snd (ScheduleProduct sample_parse (sample_product\<lparr>Product_CheckWindowStart := ''0 12 * * *''\<rparr>)
                                   (snd (ScheduleProduct sample_parse sample_product (sample_scheduler writing_adapter []))))))
        = [\<lparr>entry_ID = 2, entry_spec = ''0 12 * * *'', entry_product = ''prod''\<rparr>]
   \<and> map entry_spec
        (registrations (Product_ID sample_product)
           (snd (ScheduleProduct sample_parse (sample_product\<lparr>Product_CheckWindowStart := ''0 12 * * *''\<rparr>)
                   (snd (ScheduleProduct sample_parse sample_product (sample_scheduler writing_adapter []))))))
        = [''0 12 * * *'']
   \<and> registry_consistent (snd (ScheduleProduct sample_parse sample_product (sample_scheduler writing_adapter [])))"
proof -
  have inv: "registry_consistent (sample_scheduler writing_adapter [])"
    by (simp add: registry_consistent_def sample_scheduler_fields cron_New_def)
  have accepted: "sample_parse ''0 6 * * *'' = None" "sample_parse ''0 12 * * *'' = None"
    by (simp_all add: sample_parse_def)
  have first: "fst (ScheduleProduct sample_parse sample_product (sample_scheduler writing_adapter [])) = None"
    by (simp add: ScheduleProduct_def sample_scheduler_fields sample_product_def sample_parse_def
          cron_AddFunc_def cron_New_def Let_def)
  have entries: "cron_entries (s_cron (snd (ScheduleProduct sample_parse (sample_product\<lparr>Product_CheckWindowStart := ''0 12 * * *''\<rparr>)
                                   (snd (ScheduleProduct sample_parse sample_product (sample_scheduler writing_adapter []))))))
        = [\<lparr>entry_ID = 2, entry_spec = ''0 12 * * *'', entry_product = ''prod''\<rparr>]"
    by (simp add: ScheduleProduct_def sample_scheduler_fields sample_product_def sample_parse_def
          cron_AddFunc_def cron_Remove_def cron_New_def Let_def)
  from ScheduleProduct_registrations[OF inv, of sample_parse sample_product _ "(sample_product\<lparr>Product_CheckWindowStart := ''0 12 * * *''\<rparr>)"]
  show ?thesis
    using inv accepted first entries by (simp add: sample_product_def)
qed

text \<open>
  Claim C9 does not hold of the code. The stored product of the tests is scheduled at
  \<open>0 6 * * *\<close>; then \<open>ScheduleProduct\<close> is called for it with the expression
  \<open>invalid cron\<close>, which the parser rejects (as the package's test of an invalid
  expression expects). The call removes the registration before the parser runs and
  returns the parse error: the product, still stored with its schedule \<open>0 6 * * *\<close>, is
  left with no registration, where the claim has exactly one.
\<close>

theorem ScheduleProduct_rejected_expression:
  "''0 6 * * *'' \<noteq> ''invalid cron''
   \<and> fst (ScheduleProduct sample_parse sample_product (sample_scheduler writing_adapter [])) = None
   \<and> map entry_spec (registrations ''prod''
                       (snd (ScheduleProduct sample_parse sample_product (sample_scheduler writing_adapter []))))
        = [''0 6 * * *'']
   \<and> fst (ScheduleProduct sample_parse (sample_product\<lparr>Product_CheckWindowStart := ''invalid cron''\<rparr>)
             (snd (ScheduleProduct sample_parse sample_product (sample_scheduler writing_adapter []))))
        = Some ''cannot parse schedule: invalid cron''
   \<and> registrations ''prod''
        (snd (ScheduleProduct sample_parse (sample_product\<lparr>Product_CheckWindowStart := ''invalid cron''\<rparr>)
                (snd (ScheduleProduct sample_parse sample_product (sample_scheduler writing_adapter []))))) = []
   \<and> s_entryIDs
        (snd (ScheduleProduct sample_parse (sample_product\<lparr>Product_CheckWindowStart := ''invalid cron''\<rparr>)
                (snd (ScheduleProduct sample_parse sample_product (sample_scheduler writing_adapter []))))) ''prod'' = None
   \<and> map (\<lambda>p. (Product_ID p, Product_CheckWindowStart p))
        (products (s_db (snd (ScheduleProduct sample_parse (sample_product\<lparr>Product_CheckWindowStart := ''invalid cron''\<rparr>)
                                (snd (ScheduleProduct sample_parse sample_product (sample_scheduler writing_adapter [])))))))
        = [(''prod'', ''0 6 * * *'')]"
  by (simp add: ScheduleProduct_def sample_scheduler_fields sample_product_def sample_parse_def
        cron_AddFunc_def cron_Remove_def cron_New_def registrations_def Let_def)

section \<open>Claim about concurrent downloads\<close>

text \<open>
  A task that runs alone through the first five statements is where the sequential model
  of \<open>Download\<close> enters the transfer, in the same state.
\<close>

lemma single_task_reaches_transfer:
  assumes "fileID \<notin> d_active d"
      and "db_first_file fileID (d_db d) = Some file"
      and "d_registry d (File_SourceID file) = Some adapter"
      and "n < m"
  shows "run_schedule [0, 0, 0, 0, 0]
           \<lparr>shared = d, slots_taken = n, MaxConcurrent = m,
            tasks = [\<lparr>task_fileID = fileID, task_place = AtLoad\<rparr>]\<rparr>
         = \<lparr>shared = emitEvent EventDownloadStarted file
                       (d\<lparr>d_active := insert fileID (d_active d),
                          d_db := snd (db_create_entry (new_download_entry fileID) (d_db d))\<rparr>),
            slots_taken = Suc n, MaxConcurrent = m,
            tasks = [\<lparr>task_fileID = fileID,
                      task_place = Transferring file (next_entry_id (download_entries (d_db d)))\<rparr>]\<rparr>"
  using assms
  by (simp add: run_task_def task_step_def Let_def split_beta db_create_entry_def
        emitEvent_def hooks_Emit_def)


lemmas race_eval =
  run_task_def task_step_def two_downloads_def test_downloader_fields test_file_found
  test_file_fields db_create_entry_def new_download_entry_def next_entry_id_def
  emitEvent_def hooks_Emit_def Let_def split_beta

text \<open>
  Claim C1 does not hold of the code. Two tasks call \<open>Download\<close> for the sample file, and
  the schedule lets them take turns, one statement each: both execute \<open>Load\<close> before either
  executes \<open>Store\<close>. Both pass the check, both take a slot and both create an entry in
  status \<open>downloading\<close>; neither returns \<open>ErrDownloadInProgress\<close>. When the first task has
  executed its \<open>Store\<close> before the second one starts, the second one does return
  \<open>ErrDownloadInProgress\<close>.
\<close>

theorem Download_concurrent_race:
  "map task_place (tasks (run_schedule [0, 1, 0, 1, 0, 1, 0, 1, 0, 1] two_downloads))
     = [Transferring test_file 1, Transferring test_file 2]
   \<and> map (\<lambda>e. (DownloadEntry_FileID e, DownloadEntry_Status e))
        (download_entries
           (d_db (shared (run_schedule [0, 1, 0, 1, 0, 1, 0, 1, 0, 1] two_downloads))))
     = [(''file-1'', DownloadStatusDownloading), (''file-1'', DownloadStatusDownloading)]
   \<and> map Event_Type
        (d_hooks (shared (run_schedule [0, 1, 0, 1, 0, 1, 0, 1, 0, 1] two_downloads)))
     = [EventDownloadStarted, EventDownloadStarted]
   \<and> Returned (Some ErrDownloadInProgress)
        \<notin> set (map task_place
                  (tasks (run_schedule [0, 1, 0, 1, 0, 1, 0, 1, 0, 1] two_downloads)))
   \<and> map task_place (tasks (run_schedule [0, 0, 0, 1] two_downloads))
     = [AtSelect test_file, Returned (Some ErrDownloadInProgress)]"
  by (simp add: race_eval status_names NewEvent_def WithFile_def)

end
